theory Spec2Isabelle
  imports Main "HOL-Library.Sublist"
begin

section \<open>Python string primitives used by app.py\<close>

text \<open>
  Python \<open>str\<close> values are modelled as \<open>string\<close>. \<open>isspace\<close> is Python's
  \<open>str.isspace\<close> on the code points below 256: the characters that
  \<open>str.strip()\<close> removes.
\<close>

definition isspace :: "char \<Rightarrow> bool" where
  "isspace c = (let n = (of_char c :: nat) in
     (9 \<le> n \<and> n \<le> 13) \<or> (28 \<le> n \<and> n \<le> 32) \<or> n = 133 \<or> n = 160)"

definition lstrip :: "string \<Rightarrow> string" where
  "lstrip s = dropWhile isspace s"

definition rstrip :: "string \<Rightarrow> string" where
  "rstrip s = rev (dropWhile isspace (rev s))"

text \<open>\<open>s.strip()\<close>\<close>

definition strip :: "string \<Rightarrow> string" where
  "strip s = rstrip (lstrip s)"

text \<open>\<open>s.split(c)\<close> for a one-character separator: never returns the empty list.\<close>

fun split_on :: "char \<Rightarrow> string \<Rightarrow> string list" where
  "split_on c [] = [[]]"
| "split_on c (x # xs) =
     (if x = c then [] # split_on c xs
      else (case split_on c xs of
              [] \<Rightarrow> [[x]]
            | w # ws \<Rightarrow> (x # w) # ws))"

text \<open>\<open>s.split(c, n)\<close>: at most \<open>n\<close> splits, from the left; the rest stays whole.\<close>

fun split_max :: "char \<Rightarrow> nat \<Rightarrow> string \<Rightarrow> string list" where
  "split_max c 0 s = [s]"
| "split_max c (Suc n) s =
     (if c \<in> set s
      then takeWhile (\<lambda>x. x \<noteq> c) s # split_max c n (tl (dropWhile (\<lambda>x. x \<noteq> c) s))
      else [s])"

text \<open>\<open>sep.join(xs)\<close>\<close>

fun join :: "string \<Rightarrow> string list \<Rightarrow> string" where
  "join sep [] = []"
| "join sep [x] = x"
| "join sep (x # y # ys) = x @ sep @ join sep (y # ys)"

text \<open>\<open>str(n)\<close> and \<open>f"{n}"\<close> for a Python \<open>int\<close>: decimal digits, a minus sign when negative.\<close>

fun digits :: "nat \<Rightarrow> string" where
  "digits n =
     (if n < 10 then [char_of (48 + n)]
      else digits (n div 10) @ [char_of (48 + n mod 10)])"

declare digits.simps [simp del]

definition str_int :: "int \<Rightarrow> string" where
  "str_int i = (if i < 0 then CHR ''-'' # digits (nat (- i)) else digits (nat i))"

abbreviation nl :: char where
  "nl \<equiv> CHR 0x0A"

section \<open>Diagnostic formatter (app.py, lines 101--114)\<close>

text \<open>
  The body of the \<open>for line in lines\<close> loop:
  \<open>parts = line.split(':', 3)\<close>; with four parts the line becomes
  \<open>f"L{parts[1]}:{parts[2]}: {parts[3].strip()}"\<close>, otherwise it is kept.
\<close>

definition format_line :: "string \<Rightarrow> string" where
  "format_line line =
     (let parts = split_max CHR '':'' 3 line in
      if length parts = 4
      then ''L'' @ parts ! 1 @ '':'' @ parts ! 2 @ '': '' @ strip (parts ! 3)
      else line)"

text \<open>\<open>lines = lint_stdout.strip().split('\n')\<close>\<close>

definition lint_lines :: "string \<Rightarrow> string list" where
  "lint_lines lint_stdout = split_on nl (strip lint_stdout)"

text \<open>
  The text assigned to \<open>lint_feedback\<close> inside \<open>if lint_stdout:\<close>:
  \<open>"\n".join(formatted_lines)\<close>.
\<close>

definition format_lint :: "string \<Rightarrow> string" where
  "format_lint lint_stdout = join [nl] (map format_line (lint_lines lint_stdout))"

section \<open>Requests, the environment and the observable world\<close>

text \<open>
  What \<open>request.get_json()\<close> returns: a Python value read from JSON. Python's
  \<open>None\<close> is \<open>JNull\<close>. The handler never looks inside a float, so its literal is
  kept as text.
\<close>

datatype json =
    JNull
  | JBool bool
  | JInt int
  | JFloat string
  | JStr string
  | JArr "json list"
  | JObj "(string \<times> json) list"

text \<open>\<open>type(v).__name__\<close>, as Python's error messages print it.\<close>

fun type_name :: "json \<Rightarrow> string" where
  "type_name JNull = ''NoneType''"
| "type_name (JBool b) = ''bool''"
| "type_name (JInt i) = ''int''"
| "type_name (JFloat f) = ''float''"
| "type_name (JStr s) = ''str''"
| "type_name (JArr xs) = ''list''"
| "type_name (JObj kvs) = ''dict''"

text \<open>\<open>d.get(k)\<close> on a dict: \<open>None\<close> when the key is absent.\<close>

definition dict_get :: "(string \<times> json) list \<Rightarrow> string \<Rightarrow> json" where
  "dict_get d k = (case map_of d k of None \<Rightarrow> JNull | Some v \<Rightarrow> v)"

text \<open>
  \<open>data.get('code')\<close> on whatever \<open>get_json()\<close> returned. Only a dict has a
  \<open>get\<close> method; on any other value Python raises \<open>AttributeError\<close>
  (\<open>Inl\<close>, with the text of the exception).
\<close>

fun data_get :: "json \<Rightarrow> string \<Rightarrow> string + json" where
  "data_get (JObj d) k = Inr (dict_get d k)"
| "data_get v k =
     Inl ([CHR 0x27] @ type_name v @ [CHR 0x27] @ '' object has no attribute ''
          @ [CHR 0x27] @ ''get'' @ [CHR 0x27])"

text \<open>
  The two things the handler reads from Flask's \<open>request\<close>: the \<open>is_json\<close> flag
  and the result of \<open>get_json()\<close>, which either raises (\<open>Inl\<close>) or returns the
  parsed body.
\<close>

record request =
  is_json :: bool
  get_json :: "string + json"

text \<open>
  What \<open>subprocess.run(..., check=False)\<close> does: it returns a completed process
  (stdout, stderr, return code), raises \<open>TimeoutExpired\<close>, or raises some other
  exception (with its text).
\<close>

datatype run_result =
    Completed string string int
  | TimeoutExpired
  | Failed string

text \<open>
  The environment decides everything app.py does not: whether
  \<open>NamedTemporaryFile\<close> raises (\<open>Inl\<close>) or yields a file whose name is the given
  stem followed by the suffix; whether writing text to it raises; what a child
  process returns and what it does to the file system; whether \<open>os.remove\<close> raises.
\<close>

record env =
  mktemp :: "string + string"
  write_fault :: "string option"
  subprocess_run :: "string list \<Rightarrow> int option \<Rightarrow> string set \<Rightarrow> run_result \<times> string set"
  remove_fault :: "string option"

text \<open>
  The world the handler changes: the files that exist, the temporary files this
  handler created, the child processes it started (command and timeout), and the
  lines it printed on the server.
\<close>

record world =
  files :: "string set"
  created :: "string list"
  calls :: "(string list \<times> int option) list"
  printed :: "string list"

text \<open>\<open>isinstance(v, str)\<close>\<close>

fun is_str :: "json \<Rightarrow> bool" where
  "is_str (JStr s) = True"
| "is_str v = False"

text \<open>The handler's local variables (lines 54--57); \<open>output_text\<close> is \<open>output\<close>.\<close>

record locals =
  output_text :: string
  error :: string
  lint_feedback :: string
  temp_file_path :: "string option"

text \<open>
  What the handler gives back to Flask: a response (status and the JSON object
  passed to \<open>jsonify\<close>), or an exception that leaves the handler.
\<close>

datatype outcome =
    Response nat "(string \<times> string) list"
  | Propagated string

section \<open>run\_subprocess (lines 19--36)\<close>

definition EXECUTION_TIMEOUT :: int where
  "EXECUTION_TIMEOUT = 5"

text \<open>\<open>f"{timeout}"\<close> for \<open>timeout\<close> an int or \<open>None\<close>.\<close>

definition str_timeout :: "int option \<Rightarrow> string" where
  "str_timeout t = (case t of None \<Rightarrow> ''None'' | Some n \<Rightarrow> str_int n)"

definition run_subprocess ::
  "env \<Rightarrow> string list \<Rightarrow> int option \<Rightarrow> world \<Rightarrow> (string option \<times> string option \<times> int) \<times> world"
where
  "run_subprocess E command timeout W =
     (let r = subprocess_run E command timeout (files W);
          W' = W\<lparr>files := snd r, calls := calls W @ [(command, timeout)]\<rparr>
      in case fst r of
           Completed out err rc \<Rightarrow> ((Some out, Some err, rc), W')
         | TimeoutExpired \<Rightarrow>
             ((None, Some (''Execution timed out after '' @ str_timeout timeout @ '' seconds.''), - 1), W')
         | Failed msg \<Rightarrow>
             ((None, Some (''Error running subprocess: '' @ msg), - 2), W'))"

section \<open>execute\_python (lines 40--142)\<close>

text \<open>
  \<open>temp_file.write(code)\<close> on a text-mode file: a value that is not a \<open>str\<close>
  raises \<open>TypeError\<close>; a \<open>str\<close> is written unless the environment fails.
  \<open>None\<close> is success, \<open>Some\<close> the text of the exception.
\<close>

definition write_code :: "env \<Rightarrow> json \<Rightarrow> string option" where
  "write_code E code =
     (case code of
        JStr s \<Rightarrow> write_fault E
      | _ \<Rightarrow> Some (''write() argument must be str, not '' @ type_name code))"

text \<open>Lines 78--93: the result of the execution run, merged into \<open>output\<close> and \<open>error\<close>.\<close>

definition merge_exec :: "string option \<Rightarrow> string option \<Rightarrow> int \<Rightarrow> locals \<Rightarrow> locals" where
  "merge_exec exec_stdout exec_stderr return_code L =
     (let L1 = (case exec_stdout of None \<Rightarrow> L | Some s \<Rightarrow> L\<lparr>output_text := s\<rparr>);
          L2 = (case exec_stderr of None \<Rightarrow> L1 | Some s \<Rightarrow> L1\<lparr>error := error L1 @ s\<rparr>)
      in if return_code = - 1 then
           L2\<lparr>error := strip (''Timeout Error: Execution exceeded '' @ str_int EXECUTION_TIMEOUT
                                 @ '' seconds. '' @ error L2)\<rparr>
         else if return_code = - 2 then
           L2\<lparr>error := strip (''Execution Error: Failed to run subprocess. '' @ error L2)\<rparr>
         else if return_code \<noteq> 0 then
           (let error_msg = ''Process exited with status code '' @ str_int return_code @ ''.''
            in if \<not> sublist error_msg (error L2)
               then L2\<lparr>error := strip (error_msg @ '' '' @ error L2)\<rparr>
               else L2)
         else L2)"

text \<open>Lines 72--93: run the submission under the deadline.\<close>

definition exec_phase :: "env \<Rightarrow> string \<Rightarrow> locals \<times> world \<Rightarrow> locals \<times> world" where
  "exec_phase E p LW =
     (let r = run_subprocess E [''python'', p] (Some EXECUTION_TIMEOUT) (snd LW)
      in (merge_exec (fst (fst r)) (fst (snd (fst r))) (snd (snd (fst r))) (fst LW), snd r))"

text \<open>Python truthiness of an optional string: \<open>None\<close> and \<open>""\<close> are falsy.\<close>

definition truthy :: "string option \<Rightarrow> bool" where
  "truthy s = (case s of None \<Rightarrow> False | Some t \<Rightarrow> t \<noteq> [])"

text \<open>
  Lines 101--118: the linter's result merged into \<open>lint_feedback\<close>. The return
  code of the linter is received and not read. In
  \<open>lint_feedback += f"\n--- Flake8 Error ---\n{lint_stderr}".strip()\<close> the
  \<open>strip\<close> applies to the appended text.
\<close>

definition merge_lint :: "string option \<Rightarrow> string option \<Rightarrow> int \<Rightarrow> locals \<Rightarrow> locals" where
  "merge_lint lint_stdout lint_stderr lint_return_code L =
     (let L1 = (if truthy lint_stdout then L\<lparr>lint_feedback := format_lint (the lint_stdout)\<rparr> else L)
      in if truthy lint_stderr
         then L1\<lparr>lint_feedback := lint_feedback L1
                   @ strip ([nl] @ ''--- Flake8 Error ---'' @ [nl] @ the lint_stderr)\<rparr>
         else L1)"

text \<open>Lines 97--118: run the linter, without a timeout.\<close>

definition lint_phase :: "env \<Rightarrow> string \<Rightarrow> locals \<times> world \<Rightarrow> locals \<times> world" where
  "lint_phase E p LW =
     (let r = run_subprocess E [''flake8'', p] None (snd LW)
      in (merge_lint (fst (fst r)) (fst (snd (fst r))) (snd (snd (fst r))) (fst LW), snd r))"

text \<open>
  The body of the \<open>try\<close> (lines 63--118). The first component is \<open>Some\<close> the text
  of an exception raised inside it, with the variables and the world as they were
  at that point. The file exists as soon as \<open>NamedTemporaryFile\<close> returns, and
  \<open>temp_file_path\<close> is assigned before the write.
\<close>

definition try_body :: "env \<Rightarrow> json \<Rightarrow> locals \<Rightarrow> world \<Rightarrow> string option \<times> locals \<times> world" where
  "try_body E code L W =
     (case mktemp E of
        Inl e \<Rightarrow> (Some e, L, W)
      | Inr stem \<Rightarrow>
          (let p = stem @ ''.py'';
               W1 = W\<lparr>files := insert p (files W), created := created W @ [p]\<rparr>;
               L1 = L\<lparr>temp_file_path := Some p\<rparr>
           in case write_code E code of
                Some e \<Rightarrow> (Some e, L1, W1)
              | None \<Rightarrow> (None, lint_phase E p (exec_phase E p (L1, W1)))))"

text \<open>Line 125: the \<open>except Exception\<close> clause.\<close>

definition handle_exception :: "string option \<Rightarrow> locals \<Rightarrow> locals" where
  "handle_exception raised L =
     (case raised of
        None \<Rightarrow> L
      | Some e \<Rightarrow> L\<lparr>error := error L @ [nl] @ ''Server Error during processing: '' @ e\<rparr>)"

text \<open>
  Lines 126--133: the \<open>finally\<close> clause. \<open>os.path.exists\<close> is membership in the
  files of the world; a failing \<open>os.remove\<close> prints a warning and leaves the file.
\<close>

definition cleanup :: "env \<Rightarrow> locals \<Rightarrow> world \<Rightarrow> world" where
  "cleanup E L W =
     (case temp_file_path L of
        None \<Rightarrow> W
      | Some p \<Rightarrow>
          if p \<noteq> [] \<and> p \<in> files W then
            (case remove_fault E of
               None \<Rightarrow> W\<lparr>files := files W - {p}\<rparr>
             | Some e \<Rightarrow>
                 W\<lparr>printed := printed W
                      @ [''Warning: Failed to delete temporary file '' @ p @ '': '' @ e]\<rparr>)
          else W)"

text \<open>Lines 138--142: the report passed to \<open>jsonify\<close>.\<close>

definition report :: "locals \<Rightarrow> (string \<times> string) list" where
  "report L =
     [(''output'', strip (output_text L)),
      (''error'', strip (error L)),
      (''lint_feedback'', strip (lint_feedback L))]"

text \<open>Lines 53--142: everything after the two request checks.\<close>

definition initial_locals :: locals where
  "initial_locals = \<lparr>output_text = [], error = [], lint_feedback = [], temp_file_path = None\<rparr>"

definition process_submission :: "env \<Rightarrow> json \<Rightarrow> world \<Rightarrow> outcome \<times> world" where
  "process_submission E code W =
     (let t = try_body E code initial_locals W;
          L = handle_exception (fst t) (fst (snd t))
      in (Response 200 (report L), cleanup E L (snd (snd t))))"

text \<open>The route handler.\<close>

definition execute_python :: "env \<Rightarrow> request \<Rightarrow> world \<Rightarrow> outcome \<times> world" where
  "execute_python E req W =
     (if \<not> is_json req then (Response 400 [(''error'', ''Request must be JSON'')], W)
      else case get_json req of
             Inl e \<Rightarrow> (Propagated e, W)
           | Inr data \<Rightarrow>
               (case data_get data ''code'' of
                  Inl e \<Rightarrow> (Propagated e, W)
                | Inr code \<Rightarrow>
                    if code = JNull
                    then (Response 400
                            [(''error'', ''Missing '' @ [CHR 0x27] @ ''code'' @ [CHR 0x27]
                                         @ '' field in JSON payload'')], W)
                    else process_submission E code W))"

section \<open>Observations and concrete runs\<close>

text \<open>One field of the JSON object of a response; \<open>None\<close> when there is no response.\<close>

fun response_field :: "outcome \<Rightarrow> string \<Rightarrow> string option" where
  "response_field (Response status body) k = map_of body k"
| "response_field (Propagated e) k = None"

fun response_status :: "outcome \<Rightarrow> nat option" where
  "response_status (Response status body) = Some status"
| "response_status (Propagated e) = None"

text \<open>A request with a JSON content type whose body parsed to \<open>data\<close>.\<close>

definition json_request :: "json \<Rightarrow> request" where
  "json_request data = \<lparr>is_json = True, get_json = Inr data\<rparr>"

definition submission :: "string \<Rightarrow> request" where
  "submission src = json_request (JObj [(''code'', JStr src)])"

definition world0 :: world where
  "world0 = \<lparr>files = {}, created = [], calls = [], printed = []\<rparr>"

text \<open>
  An environment in which the temporary file is \<open>/tmp/tmpq1.py\<close>, the write and
  the removal succeed, the interpreter run ends as \<open>r\<close>, the linter finds
  nothing, and no child touches the file system.
\<close>

definition env_exec :: "run_result \<Rightarrow> env" where
  "env_exec r =
     \<lparr>mktemp = Inr ''/tmp/tmpq1'',
      write_fault = None,
      subprocess_run = (\<lambda>command timeout fs.
         if command = [''python'', ''/tmp/tmpq1.py''] then (r, fs) else (Completed [] [] 0, fs)),
      remove_fault = None\<rparr>"

text \<open>The same environment, except that the linter ends as \<open>r\<close> and the run succeeds silently.\<close>

definition env_lint :: "run_result \<Rightarrow> env" where
  "env_lint r =
     \<lparr>mktemp = Inr ''/tmp/tmpq1'',
      write_fault = None,
      subprocess_run = (\<lambda>command timeout fs.
         if command = [''flake8'', ''/tmp/tmpq1.py''] then (r, fs) else (Completed [] [] 0, fs)),
      remove_fault = None\<rparr>"

text \<open>An environment in which \<open>NamedTemporaryFile\<close> raises: the disk is full.\<close>

definition env_disk_full :: env where
  "env_disk_full =
     (env_exec (Completed [] [] 0))\<lparr>mktemp := Inl ''[Errno 28] No space left on device''\<rparr>"

section \<open>Facts about the string primitives\<close>

lemma split_on_not_Nil: "split_on c s \<noteq> []"
  by (induction s) (auto split: list.splits)

lemma split_on_no_sep: "w \<in> set (split_on c s) \<Longrightarrow> c \<notin> set w"
proof (induction s arbitrary: w)
  case Nil
  then show ?case by simp
next
  case (Cons x xs)
  show ?case
  proof (cases "x = c")
    case True
    with Cons show ?thesis by auto
  next
    case False
    obtain v vs where vs: "split_on c xs = v # vs"
      using split_on_not_Nil [of c xs] by (cases "split_on c xs") auto
    with Cons.prems False have "w = x # v \<or> w \<in> set vs" by auto
    then show ?thesis
    proof
      assume "w = x # v"
      moreover have "c \<notin> set v" using Cons.IH [of v] vs by simp
      ultimately show ?thesis using False by auto
    next
      assume "w \<in> set vs"
      then show ?thesis using Cons.IH [of w] vs by simp
    qed
  qed
qed

lemma split_on_append_sep:
  "c \<notin> set x \<Longrightarrow> split_on c (x @ c # s) = x # split_on c s"
  by (induction x) auto

lemma split_on_no_sep_id: "c \<notin> set x \<Longrightarrow> split_on c x = [x]"
  by (induction x) auto

lemma split_on_join:
  "xs \<noteq> [] \<Longrightarrow> \<forall>x \<in> set xs. c \<notin> set x \<Longrightarrow> split_on c (join [c] xs) = xs"
proof (induction xs)
  case Nil
  then show ?case by simp
next
  case (Cons x xs)
  show ?case
  proof (cases xs)
    case Nil
    with Cons.prems show ?thesis by (simp add: split_on_no_sep_id)
  next
    case (Cons y ys)
    have "join [c] (x # xs) = x @ c # join [c] xs"
      using Cons by simp
    moreover have "split_on c (join [c] xs) = xs"
      using Cons.IH Cons.prems Cons by simp
    moreover have "c \<notin> set x"
      using Cons.prems by simp
    ultimately show ?thesis
      by (simp add: split_on_append_sep)
  qed
qed

lemma set_lstrip: "set (lstrip s) \<subseteq> set s"
  unfolding lstrip_def by (rule set_dropWhileD [THEN subsetI])

lemma set_rstrip: "set (rstrip s) \<subseteq> set s"
  unfolding rstrip_def using set_dropWhileD [of _ isspace "rev s"] by auto

lemma set_strip: "set (strip s) \<subseteq> set s"
  unfolding strip_def using set_lstrip set_rstrip by blast

lemma set_tl_subset: "set (tl xs) \<subseteq> set xs"
  by (cases xs) auto

lemma split_max_set: "w \<in> set (split_max c n s) \<Longrightarrow> set w \<subseteq> set s"
proof (induction c n s arbitrary: w rule: split_max.induct)
  case (1 c s)
  then show ?case by simp
next
  case (2 c n s)
  show ?case
  proof (cases "c \<in> set s")
    case False
    with 2 show ?thesis by simp
  next
    case True
    with "2.prems" have
      "w = takeWhile (\<lambda>x. x \<noteq> c) s \<or> w \<in> set (split_max c n (tl (dropWhile (\<lambda>x. x \<noteq> c) s)))"
      by simp
    then show ?thesis
    proof
      assume "w = takeWhile (\<lambda>x. x \<noteq> c) s"
      then show ?thesis using set_takeWhileD by fastforce
    next
      assume w: "w \<in> set (split_max c n (tl (dropWhile (\<lambda>x. x \<noteq> c) s)))"
      have "set w \<subseteq> set (tl (dropWhile (\<lambda>x. x \<noteq> c) s))"
        using "2.IH" [OF True w] .
      also have "\<dots> \<subseteq> set (dropWhile (\<lambda>x. x \<noteq> c) s)"
        by (rule set_tl_subset)
      also have "\<dots> \<subseteq> set s"
        using set_dropWhileD by fastforce
      finally show ?thesis .
    qed
  qed
qed

lemma dropWhile_sep: "c \<notin> set a \<Longrightarrow> dropWhile (\<lambda>x. x \<noteq> c) (a @ c # s) = c # s"
  by (induction a) auto

lemma takeWhile_sep: "c \<notin> set a \<Longrightarrow> takeWhile (\<lambda>x. x \<noteq> c) (a @ c # s) = a"
  by (induction a) auto

lemma split_max_step:
  "c \<notin> set a \<Longrightarrow> split_max c (Suc n) (a @ c # s) = a # split_max c n s"
  by (simp add: dropWhile_sep takeWhile_sep)

lemma split_max_length: "length (split_max c n s) = Suc (min n (count_list s c))"
proof (induction c n s rule: split_max.induct)
  case (1 c s)
  then show ?case by simp
next
  case (2 c n s)
  show ?case
  proof (cases "c \<in> set s")
    case False
    then have "count_list s c = 0" by (simp add: count_list_0_iff)
    with False show ?thesis by simp
  next
    case True
    then obtain a b where s: "s = a @ c # b" and a: "c \<notin> set a"
      by (meson split_list_first)
    have "count_list a c = 0" using a by (simp add: count_list_0_iff)
    then have cnt: "count_list s c = Suc (count_list b c)"
      using s by simp
    have "split_max c (Suc n) s = a # split_max c n b"
      using s a split_max_step by simp
    moreover have "tl (dropWhile (\<lambda>x. x \<noteq> c) s) = b"
      using s a by (simp add: dropWhile_sep)
    ultimately show ?thesis
      using "2.IH" [OF True] cnt by simp
  qed
qed

lemma split_max_4:
  assumes "CHR '':'' \<notin> set p" "CHR '':'' \<notin> set l" "CHR '':'' \<notin> set k"
  shows "split_max CHR '':'' 3 (p @ '':'' @ l @ '':'' @ k @ '':'' @ m) = [p, l, k, m]"
proof -
  have "split_max CHR '':'' (Suc (Suc (Suc 0))) (p @ CHR '':'' # l @ CHR '':'' # k @ CHR '':'' # m)
        = p # split_max CHR '':'' (Suc (Suc 0)) (l @ CHR '':'' # k @ CHR '':'' # m)"
    using assms(1) by (rule split_max_step)
  also have "split_max CHR '':'' (Suc (Suc 0)) (l @ CHR '':'' # k @ CHR '':'' # m)
        = l # split_max CHR '':'' (Suc 0) (k @ CHR '':'' # m)"
    using assms(2) by (rule split_max_step)
  also have "split_max CHR '':'' (Suc 0) (k @ CHR '':'' # m) = k # split_max CHR '':'' 0 m"
    using assms(3) by (rule split_max_step)
  finally show ?thesis by (simp add: numeral_3_eq_3)
qed

section \<open>The diagnostic formatter\<close>

lemma count_list_split:
  "0 < count_list s c \<Longrightarrow> \<exists>a b. s = a @ c # b \<and> c \<notin> set a \<and> count_list s c = Suc (count_list b c)"
proof -
  assume "0 < count_list s c"
  then have "c \<in> set s" using count_list_0_iff [of s c] by auto
  then obtain a b where s: "s = a @ c # b" and a: "c \<notin> set a"
    by (meson split_list_first)
  have "count_list a c = 0" using a by (simp add: count_list_0_iff)
  then have "count_list s c = Suc (count_list b c)" using s by simp
  with s a show ?thesis by blast
qed

lemma split_max_4_shape:
  assumes "length (split_max CHR '':'' 3 line) = 4"
  shows "\<exists>p l k m. line = p @ '':'' @ l @ '':'' @ k @ '':'' @ m
           \<and> CHR '':'' \<notin> set p \<and> CHR '':'' \<notin> set l \<and> CHR '':'' \<notin> set k"
proof -
  from assms have c3: "3 \<le> count_list line CHR '':''"
    by (simp add: split_max_length)
  then obtain p r1 where 1: "line = p @ CHR '':'' # r1" "CHR '':'' \<notin> set p"
      "count_list line CHR '':'' = Suc (count_list r1 CHR '':'')"
    using count_list_split [of line "CHR '':''"] by auto
  with c3 have "0 < count_list r1 CHR '':''" by simp
  then obtain l r2 where 2: "r1 = l @ CHR '':'' # r2" "CHR '':'' \<notin> set l"
      "count_list r1 CHR '':'' = Suc (count_list r2 CHR '':'')"
    using count_list_split [of r1 "CHR '':''"] by auto
  with c3 1 have "0 < count_list r2 CHR '':''" by simp
  then obtain k m where 3: "r2 = k @ CHR '':'' # m" "CHR '':'' \<notin> set k"
    using count_list_split [of r2 "CHR '':''"] by auto
  have "line = p @ '':'' @ l @ '':'' @ k @ '':'' @ m"
    using 1 2 3 by simp
  with 1 2 3 show ?thesis by blast
qed

lemma format_line_4:
  assumes "CHR '':'' \<notin> set p" "CHR '':'' \<notin> set l" "CHR '':'' \<notin> set k"
  shows "format_line (p @ '':'' @ l @ '':'' @ k @ '':'' @ m) = ''L'' @ l @ '':'' @ k @ '': '' @ strip m"
  unfolding format_line_def split_max_4 [OF assms] by (simp add: numeral_2_eq_2 numeral_3_eq_3)

lemma format_line_other: "length (split_max CHR '':'' 3 line) \<noteq> 4 \<Longrightarrow> format_line line = line"
  by (simp add: format_line_def Let_def)

lemma format_line_no_nl:
  assumes "nl \<notin> set line"
  shows "nl \<notin> set (format_line line)"
proof (cases "length (split_max CHR '':'' 3 line) = 4")
  case False
  then show ?thesis using assms by (simp add: format_line_other)
next
  case True
  then obtain p l k m where line: "line = p @ '':'' @ l @ '':'' @ k @ '':'' @ m"
    and c: "CHR '':'' \<notin> set p" "CHR '':'' \<notin> set l" "CHR '':'' \<notin> set k"
    using split_max_4_shape by blast
  have fl: "format_line line = ''L'' @ l @ '':'' @ k @ '': '' @ strip m"
    unfolding line by (rule format_line_4 [OF c])
  have parts: "nl \<notin> set l" "nl \<notin> set k" "nl \<notin> set m"
    using assms line by simp_all
  then have "nl \<notin> set (strip m)" using set_strip [of m] by blast
  with parts have "nl \<notin> set (''L'' @ l @ '':'' @ k @ '': '' @ strip m)" by simp
  then show ?thesis unfolding fl .
qed

lemma format_lint_lines: "split_on nl (format_lint raw) = map format_line (lint_lines raw)"
proof -
  have "\<forall>x \<in> set (map format_line (lint_lines raw)). nl \<notin> set x"
    using split_on_no_sep [of _ nl "strip raw"] format_line_no_nl
    by (auto simp: lint_lines_def)
  moreover have "map format_line (lint_lines raw) \<noteq> []"
    by (simp add: lint_lines_def split_on_not_Nil)
  ultimately show ?thesis
    unfolding format_lint_def by (rule split_on_join [rotated])
qed

text \<open>
  Claim C7, as the code has it. The formatted text is a function of the raw
  linter output alone. The output is first trimmed of whitespace at both ends
  (\<open>lint_stdout.strip()\<close>, line 104), and the lines the loop reads are the lines
  of the trimmed output. The formatted text has exactly one line for each of
  them, in order, so none of them is dropped. A line that \<open>split(':', 3)\<close> cuts
  into exactly four parts \<open>path\<close>, \<open>ln\<close>, \<open>col\<close>, \<open>msg\<close> becomes
  \<open>L{ln}:{col}: {msg.strip()}\<close>, the path being discarded. A line of any other
  shape is emitted unchanged.
\<close>

theorem diagnostic_formatter:
  "lint_lines raw = split_on nl (strip raw)
   \<and> split_on nl (format_lint raw) = map format_line (lint_lines raw)
   \<and> (\<forall>line. length (split_max CHR '':'' 3 line) = 4 \<longrightarrow>
         (\<exists>path ln col msg.
            line = path @ '':'' @ ln @ '':'' @ col @ '':'' @ msg
            \<and> split_max CHR '':'' 3 line = [path, ln, col, msg]
            \<and> format_line line = ''L'' @ ln @ '':'' @ col @ '': '' @ strip msg))
   \<and> (\<forall>line. length (split_max CHR '':'' 3 line) \<noteq> 4 \<longrightarrow> format_line line = line)"
proof (intro conjI allI impI)
  show "lint_lines raw = split_on nl (strip raw)"
    by (simp add: lint_lines_def)
next
  show "split_on nl (format_lint raw) = map format_line (lint_lines raw)"
    by (rule format_lint_lines)
next
  fix line
  assume "length (split_max CHR '':'' 3 line) = 4"
  then obtain p l k m where line: "line = p @ '':'' @ l @ '':'' @ k @ '':'' @ m"
    and c: "CHR '':'' \<notin> set p" "CHR '':'' \<notin> set l" "CHR '':'' \<notin> set k"
    using split_max_4_shape by blast
  show "\<exists>path ln col msg.
            line = path @ '':'' @ ln @ '':'' @ col @ '':'' @ msg
            \<and> split_max CHR '':'' 3 line = [path, ln, col, msg]
            \<and> format_line line = ''L'' @ ln @ '':'' @ col @ '': '' @ strip msg"
    using line split_max_4 [OF c, of m] format_line_4 [OF c, of m] by blast
next
  fix line
  assume "length (split_max CHR '':'' 3 line) \<noteq> 4"
  then show "format_line line = line" by (rule format_line_other)
qed

theorem diagnostic_formatter_witness:
  "length (split_max CHR '':'' 3 ''/tmp/t.py:1:2: E225 x'') = 4
   \<and> format_line ''/tmp/t.py:1:2: E225 x'' = ''L1:2: E225 x''
   \<and> length (split_max CHR '':'' 3 ''cannot read: file'') \<noteq> 4
   \<and> format_line ''cannot read: file'' = ''cannot read: file''
   \<and> split_on nl (format_lint (''/tmp/t.py:1:2: E225 x'' @ [nl] @ ''cannot read: file'' @ [nl]))
       = [''L1:2: E225 x'', ''cannot read: file'']"
proof -
  define l1 where "l1 = ''/tmp/t.py:1:2: E225 x''"
  define l2 where "l2 = ''cannot read: file''"
  note T = diagnostic_formatter [of "l1 @ [nl] @ l2 @ [nl]"]
  have s1: "split_max CHR '':'' 3 l1 = [''/tmp/t.py'', ''1'', ''2'', '' E225 x'']"
    by (simp add: l1_def numeral_3_eq_3)
  have s2: "split_max CHR '':'' 3 l2 = [''cannot read'', '' file'']"
    by (simp add: l2_def numeral_3_eq_3)
  have n1: "length (split_max CHR '':'' 3 l1) = 4" by (simp add: s1)
  have n2: "length (split_max CHR '':'' 3 l2) \<noteq> 4" by (simp add: s2)
  from T n1 obtain path ln col msg where
    p: "split_max CHR '':'' 3 l1 = [path, ln, col, msg]"
    and f: "format_line l1 = ''L'' @ ln @ '':'' @ col @ '': '' @ strip msg"
    by blast
  from p s1 have "ln = ''1''" "col = ''2''" "msg = '' E225 x''" by simp_all
  with f have f1: "format_line l1 = ''L1:2: E225 x''"
    by (simp add: strip_def lstrip_def rstrip_def isspace_def)
  from T n2 have f2: "format_line l2 = l2" by blast
  have "lint_lines (l1 @ [nl] @ l2 @ [nl]) = [l1, l2]"
    by (simp add: l1_def l2_def lint_lines_def strip_def lstrip_def rstrip_def isspace_def)
  with T have "split_on nl (format_lint (l1 @ [nl] @ l2 @ [nl])) = [format_line l1, format_line l2]"
    by simp
  with f1 f2 n1 n2 show ?thesis
    unfolding l1_def l2_def by simp
qed

text \<open>
  The claim as it was stated fails on the lines of the raw output. The single
  line \<open>" x"\<close> is not of the four-part shape and is emitted as \<open>"x"\<close>, not
  unchanged; and of the three lines of \<open>"\n\nfoo"\<close> only one is emitted.
\<close>

theorem diagnostic_formatter_counterexample:
  "split_on nl '' x'' = ['' x'']
   \<and> length (split_max CHR '':'' 3 '' x'') \<noteq> 4
   \<and> format_lint '' x'' = ''x''
   \<and> split_on nl ([nl, nl] @ ''foo'') = [[], [], ''foo'']
   \<and> split_on nl (format_lint ([nl, nl] @ ''foo'')) = [''foo'']"
  by (simp add: format_lint_def lint_lines_def format_line_def numeral_3_eq_3
      strip_def lstrip_def rstrip_def isspace_def)

section \<open>Whitespace trimming\<close>

lemma lstrip_id: "s = [] \<or> \<not> isspace (hd s) \<Longrightarrow> lstrip s = s"
  by (cases s) (auto simp: lstrip_def)

lemma rstrip_id: "s = [] \<or> \<not> isspace (last s) \<Longrightarrow> rstrip s = s"
proof -
  assume a: "s = [] \<or> \<not> isspace (last s)"
  have "dropWhile isspace (rev s) = rev s"
  proof (cases "rev s")
    case Nil
    then show ?thesis by simp
  next
    case (Cons x xs)
    then have "s = rev xs @ [x]" by (metis rev.simps(2) rev_rev_ident)
    then have "s \<noteq> []" and "last s = x" by simp_all
    with a Cons show ?thesis by simp
  qed
  then show ?thesis by (simp add: rstrip_def)
qed

lemma lstrip_hd: "lstrip s \<noteq> [] \<Longrightarrow> \<not> isspace (hd (lstrip s))"
  unfolding lstrip_def by (rule hd_dropWhile)

lemma rstrip_last: "rstrip s \<noteq> [] \<Longrightarrow> \<not> isspace (last (rstrip s))"
proof -
  assume "rstrip s \<noteq> []"
  then have "dropWhile isspace (rev s) \<noteq> []" by (simp add: rstrip_def)
  then have "\<not> isspace (hd (dropWhile isspace (rev s)))" by (rule hd_dropWhile)
  then show ?thesis
    using \<open>dropWhile isspace (rev s) \<noteq> []\<close> by (simp add: rstrip_def last_rev)
qed

lemma rstrip_hd: "rstrip s \<noteq> [] \<Longrightarrow> hd (rstrip s) = hd s"
proof -
  assume ne: "rstrip s \<noteq> []"
  have "rev s = takeWhile isspace (rev s) @ dropWhile isspace (rev s)" by simp
  then have "s = rev (dropWhile isspace (rev s)) @ rev (takeWhile isspace (rev s))"
    by (metis rev_append rev_rev_ident)
  then have "s = rstrip s @ rev (takeWhile isspace (rev s))" by (simp add: rstrip_def)
  then show ?thesis using ne by (metis hd_append2)
qed

lemma strip_idem: "strip (strip s) = strip s"
proof (cases "strip s = []")
  case True
  have "strip [] = []" by (simp add: strip_def lstrip_def rstrip_def)
  then show ?thesis using True by simp
next
  case False
  then have ne: "rstrip (lstrip s) \<noteq> []" by (simp add: strip_def)
  then have "lstrip s \<noteq> []" by (auto simp: rstrip_def)
  then have "\<not> isspace (hd (lstrip s))" by (rule lstrip_hd)
  then have "\<not> isspace (hd (strip s))" using rstrip_hd [OF ne] by (simp add: strip_def)
  then have "lstrip (strip s) = strip s" by (simp add: lstrip_id)
  moreover have "\<not> isspace (last (strip s))" using rstrip_last [OF ne] by (simp add: strip_def)
  then have "rstrip (strip s) = strip s" by (simp add: rstrip_id)
  ultimately show ?thesis by (simp add: strip_def)
qed

lemma strip_id: "s \<noteq> [] \<Longrightarrow> \<not> isspace (hd s) \<Longrightarrow> \<not> isspace (last s) \<Longrightarrow> strip s = s"
  by (simp add: strip_def lstrip_id rstrip_id)

lemma dropWhile_keeps_infix:
  "n \<noteq> [] \<Longrightarrow> \<not> P (hd n) \<Longrightarrow> \<exists>ps'. dropWhile P (ps @ n @ ss) = ps' @ n @ ss"
proof (induction ps)
  case Nil
  then have "dropWhile P (n @ ss) = n @ ss" by (cases n) auto
  then show ?case by (metis append_Nil)
next
  case (Cons x ps)
  show ?case
  proof (cases "P x")
    case True
    with Cons show ?thesis by simp
  next
    case False
    then have "dropWhile P ((x # ps) @ n @ ss) = (x # ps) @ n @ ss" by simp
    then show ?thesis by blast
  qed
qed

lemma lstrip_keeps_infix:
  assumes "n \<noteq> []" "\<not> isspace (hd n)" "sublist n s"
  shows "sublist n (lstrip s)"
proof -
  from assms(3) obtain ps ss where "s = ps @ n @ ss" by (auto simp: sublist_def)
  then obtain ps' where "lstrip s = ps' @ n @ ss"
    using dropWhile_keeps_infix [of n isspace ps ss] assms(1,2) by (auto simp: lstrip_def)
  then show ?thesis by (auto simp: sublist_def)
qed

lemma rstrip_keeps_infix:
  assumes "n \<noteq> []" "\<not> isspace (last n)" "sublist n s"
  shows "sublist n (rstrip s)"
proof -
  from assms(3) obtain ps ss where s: "s = ps @ n @ ss" by (auto simp: sublist_def)
  have "rev n \<noteq> []" "\<not> isspace (hd (rev n))"
    using assms(1,2) by (simp_all add: hd_rev)
  then obtain q where "dropWhile isspace (rev ss @ rev n @ rev ps) = q @ rev n @ rev ps"
    using dropWhile_keeps_infix [of "rev n" isspace "rev ss" "rev ps"] by blast
  then have "rstrip s = ps @ n @ rev q"
    using s by (simp add: rstrip_def)
  then show ?thesis by (auto simp: sublist_def)
qed

lemma strip_keeps_infix:
  assumes "n \<noteq> []" "\<not> isspace (hd n)" "\<not> isspace (last n)" "sublist n s"
  shows "sublist n (strip s)"
  unfolding strip_def
  by (rule rstrip_keeps_infix [OF assms(1,3) lstrip_keeps_infix [OF assms(1,2,4)]])

lemma strip_Nil: "strip [] = []"
  by (simp add: strip_def lstrip_def rstrip_def)

lemma str_int_5: "str_int 5 = ''5''"
  by code_simp

section \<open>The phases of the handler\<close>

lemma run_subprocess_world:
  "created (snd (run_subprocess E c t W)) = created W"
  "printed (snd (run_subprocess E c t W)) = printed W"
  "calls (snd (run_subprocess E c t W)) = calls W @ [(c, t)]"
  "files (snd (run_subprocess E c t W)) = snd (subprocess_run E c t (files W))"
  by (simp_all add: run_subprocess_def Let_def split: run_result.splits)

lemma merge_exec_fields:
  "temp_file_path (merge_exec so se rc L) = temp_file_path L"
  "lint_feedback (merge_exec so se rc L) = lint_feedback L"
  by (simp_all add: merge_exec_def Let_def split: option.splits)

lemma merge_lint_fields:
  "temp_file_path (merge_lint so se rc L) = temp_file_path L"
  "error (merge_lint so se rc L) = error L"
  "output_text (merge_lint so se rc L) = output_text L"
  by (simp_all add: merge_lint_def Let_def)

lemma exec_phase_fields:
  "temp_file_path (fst (exec_phase E p LW)) = temp_file_path (fst LW)"
  "lint_feedback (fst (exec_phase E p LW)) = lint_feedback (fst LW)"
  "created (snd (exec_phase E p LW)) = created (snd LW)"
  "printed (snd (exec_phase E p LW)) = printed (snd LW)"
  "calls (snd (exec_phase E p LW)) = calls (snd LW) @ [([''python'', p], Some EXECUTION_TIMEOUT)]"
  by (simp_all add: exec_phase_def Let_def merge_exec_fields run_subprocess_world)

lemma lint_phase_fields:
  "temp_file_path (fst (lint_phase E p LW)) = temp_file_path (fst LW)"
  "error (fst (lint_phase E p LW)) = error (fst LW)"
  "output_text (fst (lint_phase E p LW)) = output_text (fst LW)"
  "created (snd (lint_phase E p LW)) = created (snd LW)"
  "printed (snd (lint_phase E p LW)) = printed (snd LW)"
  "calls (snd (lint_phase E p LW)) = calls (snd LW) @ [([''flake8'', p], None)]"
  by (simp_all add: lint_phase_def Let_def merge_lint_fields run_subprocess_world)

lemma try_body_no_file:
  "mktemp E = Inl e \<Longrightarrow> try_body E code L W = (Some e, L, W)"
  by (simp add: try_body_def)

lemma try_body_write_raises:
  "mktemp E = Inr stem \<Longrightarrow> write_code E code = Some e \<Longrightarrow>
   try_body E code L W =
     (Some e, L\<lparr>temp_file_path := Some (stem @ ''.py'')\<rparr>,
      W\<lparr>files := insert (stem @ ''.py'') (files W), created := created W @ [stem @ ''.py'']\<rparr>)"
  by (simp add: try_body_def Let_def)

lemma try_body_runs:
  "mktemp E = Inr stem \<Longrightarrow> write_code E code = None \<Longrightarrow>
   try_body E code L W =
     (None, lint_phase E (stem @ ''.py'')
              (exec_phase E (stem @ ''.py'')
                 (L\<lparr>temp_file_path := Some (stem @ ''.py'')\<rparr>,
                  W\<lparr>files := insert (stem @ ''.py'') (files W),
                    created := created W @ [stem @ ''.py'']\<rparr>)))"
  by (simp add: try_body_def Let_def)

lemma write_code_not_str: "\<not> is_str v \<Longrightarrow> write_code E v \<noteq> None"
  by (cases v) (simp_all add: write_code_def)

lemma execute_python_reaches:
  "is_json req \<Longrightarrow> get_json req = Inr (JObj d) \<Longrightarrow> dict_get d ''code'' \<noteq> JNull \<Longrightarrow>
   execute_python E req W = process_submission E (dict_get d ''code'') W"
  by (simp add: execute_python_def)

lemma process_submission_response:
  "fst (process_submission E code W) =
     Response 200
       [(''output'', strip (output_text (fst (snd (try_body E code initial_locals W))))),
        (''error'', strip (error (handle_exception (fst (try_body E code initial_locals W))
                                   (fst (snd (try_body E code initial_locals W)))))),
        (''lint_feedback'', strip (lint_feedback (fst (snd (try_body E code initial_locals W)))))]"
  by (simp add: process_submission_def Let_def report_def handle_exception_def split: option.splits)

lemma server_error_kept:
  "sublist ''Server Error during processing:''
     (strip (e @ [nl] @ ''Server Error during processing: '' @ detail))"
proof -
  have "sublist ''Server Error during processing:''
          ((e @ [nl]) @ ''Server Error during processing:'' @ ('' '' @ detail))"
    by (rule sublist_appendI)
  then have "sublist ''Server Error during processing:''
          (e @ [nl] @ ''Server Error during processing: '' @ detail)"
    by simp
  then show ?thesis
    by (rule strip_keeps_infix [rotated 3]) (simp_all add: isspace_def)
qed




text \<open>
  Claim C10. When \<open>code\<close> is present and is neither \<open>None\<close> nor a string (a
  number, a boolean, a list, an object), the request passes both checks at the
  start; the write into the temporary file raises inside the \<open>try\<close> (if
  creating the file has not already raised), and the answer is a 200 report with
  empty output and lint feedback whose error contains
  \<open>Server Error during processing:\<close>. It is not a 400 rejection.
\<close>

theorem non_text_code_absorbed:
  assumes "is_json req" and "get_json req = Inr (JObj d)"
    and "map_of d ''code'' = Some v" and "v \<noteq> JNull" and "\<not> is_str v"
  shows "\<exists>err. fst (execute_python E req W)
                 = Response 200 [(''output'', []), (''error'', err), (''lint_feedback'', [])]
               \<and> sublist ''Server Error during processing:'' err"
proof -
  have dg: "dict_get d ''code'' = v" using assms(3) by (simp add: dict_get_def)
  have ex: "execute_python E req W = process_submission E v W"
    using assms(1,2,4) dg execute_python_reaches [of req d E W] by simp
  obtain detail L W' where t: "try_body E v initial_locals W = (Some detail, L, W')"
    and L: "output_text L = []" "error L = []" "lint_feedback L = []"
  proof (cases "mktemp E")
    case (Inl e)
    then have "try_body E v initial_locals W = (Some e, initial_locals, W)"
      by (rule try_body_no_file)
    then show ?thesis using that by (simp add: initial_locals_def)
  next
    case (Inr stem)
    obtain e where "write_code E v = Some e"
      using write_code_not_str [OF assms(5), of E] by auto
    from try_body_write_raises [OF Inr this, of initial_locals W]
    show ?thesis using that by (simp add: initial_locals_def)
  qed
  have "fst (execute_python E req W)
      = Response 200 [(''output'', []),
          (''error'', strip ([] @ [nl] @ ''Server Error during processing: '' @ detail)),
          (''lint_feedback'', [])]"
    unfolding ex process_submission_response t
    by (simp add: L handle_exception_def strip_Nil)
  moreover have "sublist ''Server Error during processing:''
      (strip ([] @ [nl] @ ''Server Error during processing: '' @ detail))"
    by (rule server_error_kept)
  ultimately show ?thesis by blast
qed

theorem non_text_code_absorbed_witness:
  "is_json (json_request (JObj [(''code'', JInt 42)]))
   \<and> get_json (json_request (JObj [(''code'', JInt 42)])) = Inr (JObj [(''code'', JInt 42)])
   \<and> map_of [(''code'', JInt 42)] ''code'' = Some (JInt 42)
   \<and> JInt 42 \<noteq> JNull \<and> \<not> is_str (JInt 42)
   \<and> response_status
        (fst (execute_python (env_exec TimeoutExpired) (json_request (JObj [(''code'', JInt 42)])) world0))
       = Some 200
   \<and> (\<exists>err. response_field
        (fst (execute_python (env_exec TimeoutExpired) (json_request (JObj [(''code'', JInt 42)])) world0))
        ''error'' = Some err \<and> sublist ''Server Error during processing:'' err)"
proof -
  have h1: "is_json (json_request (JObj [(''code'', JInt 42)]))"
    and h2: "get_json (json_request (JObj [(''code'', JInt 42)])) = Inr (JObj [(''code'', JInt 42)])"
    by (simp_all add: json_request_def)
  have h3: "map_of [(''code'', JInt 42)] ''code'' = Some (JInt 42)" by simp
  have h4: "JInt 42 \<noteq> JNull" and h5: "\<not> is_str (JInt 42)" by simp_all
  from non_text_code_absorbed [OF h1 h2 h3 h4 h5, of "env_exec TimeoutExpired" world0]
  obtain err where
    "fst (execute_python (env_exec TimeoutExpired) (json_request (JObj [(''code'', JInt 42)])) world0)
       = Response 200 [(''output'', []), (''error'', err), (''lint_feedback'', [])]"
    and "sublist ''Server Error during processing:'' err"
    by blast
  with h1 h2 h3 h4 h5 show ?thesis by simp
qed

section \<open>The execution run and the report\<close>

lemma run_subprocess_completed:
  "fst (subprocess_run E c t (files W)) = Completed out err rc \<Longrightarrow>
   fst (run_subprocess E c t W) = (Some out, Some err, rc)"
  by (simp add: run_subprocess_def Let_def)

lemma run_subprocess_timeout:
  "fst (subprocess_run E c t (files W)) = TimeoutExpired \<Longrightarrow>
   fst (run_subprocess E c t W)
     = (None, Some (''Execution timed out after '' @ str_timeout t @ '' seconds.''), - 1)"
  by (simp add: run_subprocess_def Let_def)

lemma run_subprocess_failed:
  "fst (subprocess_run E c t (files W)) = Failed msg \<Longrightarrow>
   fst (run_subprocess E c t W) = (None, Some (''Error running subprocess: '' @ msg), - 2)"
  by (simp add: run_subprocess_def Let_def)

lemma merge_exec_path_irrelevant:
  "error (merge_exec so se rc (L\<lparr>temp_file_path := x\<rparr>)) = error (merge_exec so se rc L)"
  "output_text (merge_exec so se rc (L\<lparr>temp_file_path := x\<rparr>)) = output_text (merge_exec so se rc L)"
  by (simp_all add: merge_exec_def Let_def split: option.splits)

lemma report_of_run:
  assumes "is_json req" and "get_json req = Inr (JObj d)" and "dict_get d ''code'' = JStr src"
    and "mktemp E = Inr stem" and "write_fault E = None"
    and "fst (run_subprocess E [''python'', stem @ ''.py''] (Some EXECUTION_TIMEOUT)
           (W\<lparr>files := insert (stem @ ''.py'') (files W),
              created := created W @ [stem @ ''.py'']\<rparr>)) = (so, se, rc)"
  shows "\<exists>lint. fst (execute_python E req W) =
     Response 200
       [(''output'', strip (output_text (merge_exec so se rc initial_locals))),
        (''error'', strip (error (merge_exec so se rc initial_locals))),
        (''lint_feedback'', lint)]"
proof -
  let ?p = "stem @ ''.py''"
  let ?W1 = "W\<lparr>files := insert ?p (files W), created := created W @ [?p]\<rparr>"
  let ?L1 = "initial_locals\<lparr>temp_file_path := Some ?p\<rparr>"
  have ex: "execute_python E req W = process_submission E (JStr src) W"
    using assms(1,2,3) execute_python_reaches [of req d E W] by simp
  have w: "write_code E (JStr src) = None"
    using assms(5) by (simp add: write_code_def)
  have t: "try_body E (JStr src) initial_locals W
           = (None, lint_phase E ?p (exec_phase E ?p (?L1, ?W1)))"
    using try_body_runs [OF assms(4) w] .
  have x: "fst (exec_phase E ?p (?L1, ?W1)) = merge_exec so se rc ?L1"
    using assms(6) by (simp add: exec_phase_def Let_def)
  show ?thesis
    unfolding ex process_submission_response t
    by (simp add: handle_exception_def lint_phase_fields x merge_exec_path_irrelevant)
qed

lemma timeout_error_text:
  assumes "is_json req" and "get_json req = Inr (JObj d)" and "dict_get d ''code'' = JStr src"
    and "mktemp E = Inr stem" and "write_fault E = None"
    and "fst (subprocess_run E [''python'', stem @ ''.py''] (Some 5)
                (insert (stem @ ''.py'') (files W))) = TimeoutExpired"
  shows "\<exists>lint. fst (execute_python E req W) =
     Response 200
       [(''output'', []),
        (''error'', ''Timeout Error: Execution exceeded 5 seconds. Execution timed out after 5 seconds.''),
        (''lint_feedback'', lint)]"
proof -
  let ?W1 = "W\<lparr>files := insert (stem @ ''.py'') (files W),
               created := created W @ [stem @ ''.py'']\<rparr>"
  have "fst (subprocess_run E [''python'', stem @ ''.py''] (Some EXECUTION_TIMEOUT) (files ?W1))
          = TimeoutExpired"
    using assms(6) by (simp add: EXECUTION_TIMEOUT_def)
  then have r: "fst (run_subprocess E [''python'', stem @ ''.py''] (Some EXECUTION_TIMEOUT) ?W1)
      = (None, Some ''Execution timed out after 5 seconds.'', - 1)"
    using run_subprocess_timeout [of E _ "Some EXECUTION_TIMEOUT" ?W1]
    by (simp add: str_timeout_def EXECUTION_TIMEOUT_def str_int_5)
  have o: "strip (output_text
              (merge_exec None (Some ''Execution timed out after 5 seconds.'') (- 1) initial_locals)) = []"
    by (simp add: merge_exec_def initial_locals_def strip_Nil)
  have "error (merge_exec None (Some ''Execution timed out after 5 seconds.'') (- 1) initial_locals)
      = strip (''Timeout Error: Execution exceeded 5 seconds. Execution timed out after 5 seconds.'')"
    by (simp add: merge_exec_def initial_locals_def EXECUTION_TIMEOUT_def str_int_5)
  then have e: "strip (error
              (merge_exec None (Some ''Execution timed out after 5 seconds.'') (- 1) initial_locals))
      = ''Timeout Error: Execution exceeded 5 seconds. Execution timed out after 5 seconds.''"
    by (simp add: strip_def lstrip_def rstrip_def isspace_def)
  from report_of_run [OF assms(1-5) r] show ?thesis
    unfolding o e .
qed

lemma launch_failure_text:
  assumes "is_json req" and "get_json req = Inr (JObj d)" and "dict_get d ''code'' = JStr src"
    and "mktemp E = Inr stem" and "write_fault E = None"
    and "fst (subprocess_run E [''python'', stem @ ''.py''] (Some 5)
                (insert (stem @ ''.py'') (files W))) = Failed msg"
  shows "\<exists>lint. fst (execute_python E req W) =
     Response 200
       [(''output'', []),
        (''error'', strip (''Execution Error: Failed to run subprocess. ''
                           @ ''Error running subprocess: '' @ msg)),
        (''lint_feedback'', lint)]"
proof -
  let ?W1 = "W\<lparr>files := insert (stem @ ''.py'') (files W),
               created := created W @ [stem @ ''.py'']\<rparr>"
  let ?reason = "''Error running subprocess: '' @ msg"
  have "fst (subprocess_run E [''python'', stem @ ''.py''] (Some EXECUTION_TIMEOUT) (files ?W1))
          = Failed msg"
    using assms(6) by (simp add: EXECUTION_TIMEOUT_def)
  then have r: "fst (run_subprocess E [''python'', stem @ ''.py''] (Some EXECUTION_TIMEOUT) ?W1)
      = (None, Some ?reason, - 2)"
    by (rule run_subprocess_failed)
  have o: "strip (output_text (merge_exec None (Some ?reason) (- 2) initial_locals)) = []"
    by (simp add: merge_exec_def initial_locals_def strip_Nil)
  have "error (merge_exec None (Some ?reason) (- 2) initial_locals)
      = strip (''Execution Error: Failed to run subprocess. '' @ ?reason)"
    by (simp add: merge_exec_def initial_locals_def)
  then have e: "strip (error (merge_exec None (Some ?reason) (- 2) initial_locals))
      = strip (''Execution Error: Failed to run subprocess. '' @ ?reason)"
    by (simp only: strip_idem)
  from report_of_run [OF assms(1-5) r] show ?thesis
    unfolding o e .
qed

lemma nonzero_exit_text:
  assumes "is_json req" and "get_json req = Inr (JObj d)" and "dict_get d ''code'' = JStr src"
    and "mktemp E = Inr stem" and "write_fault E = None"
    and "fst (subprocess_run E [''python'', stem @ ''.py''] (Some 5)
                (insert (stem @ ''.py'') (files W))) = Completed out err rc"
    and "rc \<noteq> 0" and "rc \<noteq> - 1" and "rc \<noteq> - 2"
  shows "\<exists>lint. fst (execute_python E req W) =
     Response 200
       [(''output'', strip out),
        (''error'',
           if sublist (''Process exited with status code '' @ str_int rc @ ''.'') err
           then strip err
           else strip ((''Process exited with status code '' @ str_int rc @ ''.'') @ '' '' @ err)),
        (''lint_feedback'', lint)]"
proof -
  let ?W1 = "W\<lparr>files := insert (stem @ ''.py'') (files W),
               created := created W @ [stem @ ''.py'']\<rparr>"
  let ?msg = "''Process exited with status code '' @ str_int rc @ ''.''"
  have "fst (subprocess_run E [''python'', stem @ ''.py''] (Some EXECUTION_TIMEOUT) (files ?W1))
          = Completed out err rc"
    using assms(6) by (simp add: EXECUTION_TIMEOUT_def)
  then have r: "fst (run_subprocess E [''python'', stem @ ''.py''] (Some EXECUTION_TIMEOUT) ?W1)
      = (Some out, Some err, rc)"
    by (rule run_subprocess_completed)
  have o: "output_text (merge_exec (Some out) (Some err) rc initial_locals) = out"
    by (simp add: merge_exec_def initial_locals_def Let_def)
  have "error (merge_exec (Some out) (Some err) rc initial_locals)
      = (if sublist ?msg err then err else strip (?msg @ '' '' @ err))"
    using assms(7-9) by (simp add: merge_exec_def initial_locals_def Let_def)
  then have e: "strip (error (merge_exec (Some out) (Some err) rc initial_locals))
      = (if sublist ?msg err then strip err else strip (?msg @ '' '' @ err))"
    by (simp add: strip_idem)
  from report_of_run [OF assms(1-5) r] show ?thesis
    unfolding o e .
qed

lemma submission_reaches:
  "is_json (submission src)"
  "get_json (submission src) = Inr (JObj [(''code'', JStr src)])"
  "dict_get [(''code'', JStr src)] ''code'' = JStr src"
  by (simp_all add: submission_def json_request_def dict_get_def)

lemma env_exec_fields:
  "mktemp (env_exec r) = Inr ''/tmp/tmpq1''"
  "write_fault (env_exec r) = None"
  "remove_fault (env_exec r) = None"
  "subprocess_run (env_exec r) [''python'', ''/tmp/tmpq1.py''] t fs = (r, fs)"
  "subprocess_run (env_exec r) [''flake8'', ''/tmp/tmpq1.py''] t fs = (Completed [] [] 0, fs)"
  by (simp_all add: env_exec_def)

lemma signal_exit_text:
  assumes "rc = - 1 \<or> rc = - 2"
  shows "\<exists>lint. fst (execute_python (env_exec (Completed [] [] rc)) (submission src) world0) =
     Response 200
       [(''output'', []),
        (''error'', if rc = - 1 then ''Timeout Error: Execution exceeded 5 seconds.''
                    else ''Execution Error: Failed to run subprocess.''),
        (''lint_feedback'', lint)]"
proof -
  let ?E = "env_exec (Completed [] [] rc)"
  let ?W1 = "world0\<lparr>files := insert (''/tmp/tmpq1'' @ ''.py'') (files world0),
               created := created world0 @ [''/tmp/tmpq1'' @ ''.py'']\<rparr>"
  have "fst (subprocess_run ?E [''python'', ''/tmp/tmpq1'' @ ''.py''] (Some EXECUTION_TIMEOUT) (files ?W1))
          = Completed [] [] rc"
    by (simp add: env_exec_fields)
  then have r: "fst (run_subprocess ?E [''python'', ''/tmp/tmpq1'' @ ''.py''] (Some EXECUTION_TIMEOUT) ?W1)
      = (Some [], Some [], rc)"
    by (rule run_subprocess_completed)
  have o: "strip (output_text (merge_exec (Some []) (Some []) rc initial_locals)) = []"
    by (simp add: merge_exec_def initial_locals_def Let_def strip_Nil)
  have "error (merge_exec (Some []) (Some []) rc initial_locals)
      = (if rc = - 1 then strip ''Timeout Error: Execution exceeded 5 seconds. ''
         else strip ''Execution Error: Failed to run subprocess. '')"
    using assms by (auto simp: merge_exec_def initial_locals_def Let_def EXECUTION_TIMEOUT_def str_int_5)
  then have e: "strip (error (merge_exec (Some []) (Some []) rc initial_locals))
      = (if rc = - 1 then ''Timeout Error: Execution exceeded 5 seconds.''
         else ''Execution Error: Failed to run subprocess.'')"
    by (simp add: strip_def lstrip_def rstrip_def isspace_def)
  from report_of_run [OF submission_reaches env_exec_fields(1,2) r] show ?thesis
    unfolding o e .
qed

section \<open>Timeouts, launch failures and exit codes\<close>

text \<open>
  Claim C3, as the code has it. When the run of the submission exceeds the
  5-second deadline, the report has empty output and its error is
  \<open>Timeout Error: Execution exceeded 5 seconds. Execution timed out after 5 seconds.\<close>:
  the sentence of the claim followed by the text that \<open>run_subprocess\<close> returns
  in place of stderr.
\<close>

theorem timeout_report:
  assumes "is_json req" and "get_json req = Inr (JObj d)" and "dict_get d ''code'' = JStr src"
    and "mktemp E = Inr stem" and "write_fault E = None"
    and "fst (subprocess_run E [''python'', stem @ ''.py''] (Some 5)
                (insert (stem @ ''.py'') (files W))) = TimeoutExpired"
  shows "response_status (fst (execute_python E req W)) = Some 200
       \<and> response_field (fst (execute_python E req W)) ''output'' = Some []
       \<and> response_field (fst (execute_python E req W)) ''error''
           = Some ''Timeout Error: Execution exceeded 5 seconds. Execution timed out after 5 seconds.''"
proof -
  from timeout_error_text [OF assms] obtain lint where
    "fst (execute_python E req W) =
       Response 200
         [(''output'', []),
          (''error'', ''Timeout Error: Execution exceeded 5 seconds. Execution timed out after 5 seconds.''),
          (''lint_feedback'', lint)]"
    by blast
  then show ?thesis by simp
qed

theorem timeout_report_witness:
  "is_json (submission ''import time; time.sleep(10)'')
   \<and> fst (subprocess_run (env_exec TimeoutExpired) [''python'', ''/tmp/tmpq1'' @ ''.py''] (Some 5)
            (insert (''/tmp/tmpq1'' @ ''.py'') (files world0))) = TimeoutExpired
   \<and> response_status
         (fst (execute_python (env_exec TimeoutExpired) (submission ''import time; time.sleep(10)'') world0))
       = Some 200
   \<and> response_field
         (fst (execute_python (env_exec TimeoutExpired) (submission ''import time; time.sleep(10)'') world0))
         ''output'' = Some []
   \<and> response_field
         (fst (execute_python (env_exec TimeoutExpired) (submission ''import time; time.sleep(10)'') world0))
         ''error''
       = Some ''Timeout Error: Execution exceeded 5 seconds. Execution timed out after 5 seconds.''"
proof -
  have h: "fst (subprocess_run (env_exec TimeoutExpired) [''python'', ''/tmp/tmpq1'' @ ''.py''] (Some 5)
            (insert (''/tmp/tmpq1'' @ ''.py'') (files world0))) = TimeoutExpired"
    by (simp add: env_exec_fields)
  from timeout_report [OF submission_reaches env_exec_fields(1,2) h] h submission_reaches(1)
  show ?thesis by blast
qed

text \<open>
  The claim as it was stated fails: on a timeout the error is not the bare
  sentence \<open>Timeout Error: Execution exceeded 5 seconds.\<close>
\<close>

theorem timeout_error_counterexample:
  "fst (subprocess_run (env_exec TimeoutExpired) [''python'', ''/tmp/tmpq1.py''] (Some 5)
         {''/tmp/tmpq1.py''}) = TimeoutExpired
   \<and> response_field
         (fst (execute_python (env_exec TimeoutExpired) (submission ''import time; time.sleep(10)'') world0))
         ''error''
       \<noteq> Some ''Timeout Error: Execution exceeded 5 seconds.''"
proof -
  have h: "fst (subprocess_run (env_exec TimeoutExpired) [''python'', ''/tmp/tmpq1'' @ ''.py''] (Some 5)
            (insert (''/tmp/tmpq1'' @ ''.py'') (files world0))) = TimeoutExpired"
    by (simp add: env_exec_fields)
  from timeout_error_text [OF submission_reaches env_exec_fields(1,2) h] obtain lint where
    "fst (execute_python (env_exec TimeoutExpired) (submission ''import time; time.sleep(10)'') world0) =
       Response 200
         [(''output'', []),
          (''error'', ''Timeout Error: Execution exceeded 5 seconds. Execution timed out after 5 seconds.''),
          (''lint_feedback'', lint)]"
    by blast
  then have "response_field
         (fst (execute_python (env_exec TimeoutExpired) (submission ''import time; time.sleep(10)'') world0))
         ''error''
       \<noteq> Some ''Timeout Error: Execution exceeded 5 seconds.''"
    by simp
  moreover have "fst (subprocess_run (env_exec TimeoutExpired) [''python'', ''/tmp/tmpq1.py''] (Some 5)
         {''/tmp/tmpq1.py''}) = TimeoutExpired"
    by (simp add: env_exec_fields)
  ultimately show ?thesis by blast
qed

text \<open>
  Claim C5. When the interpreter cannot be started, \<open>run_subprocess\<close> returns no
  output and the reason \<open>Error running subprocess: {exception text}\<close>; the report
  has empty output and its error is
  \<open>Execution Error: Failed to run subprocess. {reason}\<close>, whitespace-trimmed as
  every field of the report: exactly that text whenever the exception text is not
  empty and does not end in whitespace.
\<close>

theorem launch_failure_report:
  assumes "is_json req" and "get_json req = Inr (JObj d)" and "dict_get d ''code'' = JStr src"
    and "mktemp E = Inr stem" and "write_fault E = None"
    and "fst (subprocess_run E [''python'', stem @ ''.py''] (Some 5)
                (insert (stem @ ''.py'') (files W))) = Failed msg"
    and "reason = ''Error running subprocess: '' @ msg"
  shows "fst (run_subprocess E [''python'', stem @ ''.py''] (Some 5)
                (W\<lparr>files := insert (stem @ ''.py'') (files W)\<rparr>)) = (None, Some reason, - 2)
       \<and> response_status (fst (execute_python E req W)) = Some 200
       \<and> response_field (fst (execute_python E req W)) ''output'' = Some []
       \<and> response_field (fst (execute_python E req W)) ''error''
           = Some (strip (''Execution Error: Failed to run subprocess. '' @ reason))
       \<and> (msg \<noteq> [] \<and> \<not> isspace (last msg) \<longrightarrow>
            response_field (fst (execute_python E req W)) ''error''
              = Some (''Execution Error: Failed to run subprocess. '' @ reason))"
proof -
  from launch_failure_text [OF assms(1-6)] obtain lint where
    r: "fst (execute_python E req W) =
       Response 200
         [(''output'', []),
          (''error'', strip (''Execution Error: Failed to run subprocess. '' @ reason)),
          (''lint_feedback'', lint)]"
    unfolding assms(7) by blast
  have run: "fst (run_subprocess E [''python'', stem @ ''.py''] (Some 5)
                (W\<lparr>files := insert (stem @ ''.py'') (files W)\<rparr>)) = (None, Some reason, - 2)"
    unfolding assms(7) by (rule run_subprocess_failed) (simp add: assms(6))
  have exact: "strip (''Execution Error: Failed to run subprocess. '' @ reason)
                 = ''Execution Error: Failed to run subprocess. '' @ reason"
    if "msg \<noteq> []" and "\<not> isspace (last msg)"
  proof (rule strip_id)
    show "''Execution Error: Failed to run subprocess. '' @ reason \<noteq> []" by simp
    show "\<not> isspace (hd (''Execution Error: Failed to run subprocess. '' @ reason))"
      by (simp add: isspace_def)
    show "\<not> isspace (last (''Execution Error: Failed to run subprocess. '' @ reason))"
      using that by (simp add: assms(7))
  qed
  from r run exact show ?thesis by simp
qed

theorem launch_failure_report_witness:
  "is_json (submission ''print(1)'')
   \<and> fst (subprocess_run (env_exec (Failed ''[Errno 2] No such file or directory: python''))
            [''python'', ''/tmp/tmpq1'' @ ''.py''] (Some 5)
            (insert (''/tmp/tmpq1'' @ ''.py'') (files world0)))
       = Failed ''[Errno 2] No such file or directory: python''
   \<and> ''[Errno 2] No such file or directory: python'' \<noteq> []
   \<and> \<not> isspace (last ''[Errno 2] No such file or directory: python'')
   \<and> response_field
         (fst (execute_python (env_exec (Failed ''[Errno 2] No such file or directory: python''))
                (submission ''print(1)'') world0)) ''output'' = Some []
   \<and> response_field
         (fst (execute_python (env_exec (Failed ''[Errno 2] No such file or directory: python''))
                (submission ''print(1)'') world0)) ''error''
       = Some (''Execution Error: Failed to run subprocess. ''
               @ ''Error running subprocess: '' @ ''[Errno 2] No such file or directory: python'')"
proof -
  define msg where "msg = ''[Errno 2] No such file or directory: python''"
  have h: "fst (subprocess_run (env_exec (Failed msg)) [''python'', ''/tmp/tmpq1'' @ ''.py''] (Some 5)
            (insert (''/tmp/tmpq1'' @ ''.py'') (files world0))) = Failed msg"
    by (simp add: env_exec_fields)
  have m: "msg \<noteq> []" "\<not> isspace (last msg)"
    by (simp_all add: msg_def isspace_def)
  from launch_failure_report [OF submission_reaches env_exec_fields(1,2) h refl] h m
    submission_reaches(1)
  show ?thesis unfolding msg_def by blast
qed

text \<open>
  Claim C2 at a failing input. A submission killed by signal 1 (SIGHUP) makes
  \<open>subprocess.run\<close> return normally with return code \<open>-1\<close>; no deadline
  elapsed, yet the handler reads \<open>-1\<close> as the timeout marker of
  \<open>run_subprocess\<close> and reports a timeout.
\<close>

theorem exit_code_read_as_timeout:
  "fst (subprocess_run (env_exec (Completed [] [] (- 1))) [''python'', ''/tmp/tmpq1.py''] (Some 5)
         {''/tmp/tmpq1.py''}) = Completed [] [] (- 1)
   \<and> response_field
         (fst (execute_python (env_exec (Completed [] [] (- 1)))
                (submission ''import os, signal; os.kill(os.getpid(), signal.SIGHUP)'') world0))
         ''error''
       = Some ''Timeout Error: Execution exceeded 5 seconds.''"
proof -
  have "(- 1 :: int) = - 1 \<or> (- 1 :: int) = - 2" by simp
  from signal_exit_text [OF this] obtain lint where
    "fst (execute_python (env_exec (Completed [] [] (- 1)))
                (submission ''import os, signal; os.kill(os.getpid(), signal.SIGHUP)'') world0) =
     Response 200
       [(''output'', []),
        (''error'', ''Timeout Error: Execution exceeded 5 seconds.''),
        (''lint_feedback'', lint)]"
    by auto
  then show ?thesis by (simp add: env_exec_fields)
qed

text \<open>
  Claim C4 at a failing input. A submission killed by signal 2 (SIGINT) exits
  with return code \<open>-2\<close>, which is not zero; the error of the report does not
  begin with \<open>Process exited with status code -2.\<close> but is the launch-failure
  text, because the handler reads \<open>-2\<close> as the marker of \<open>run_subprocess\<close>.
\<close>

theorem exit_code_read_as_launch_failure:
  "fst (subprocess_run (env_exec (Completed [] [] (- 2))) [''python'', ''/tmp/tmpq1.py''] (Some 5)
         {''/tmp/tmpq1.py''}) = Completed [] [] (- 2)
   \<and> response_field
         (fst (execute_python (env_exec (Completed [] [] (- 2)))
                (submission ''import os, signal; signal.signal(2, signal.SIG_DFL); os.kill(os.getpid(), 2)'')
                world0))
         ''error''
       = Some ''Execution Error: Failed to run subprocess.''"
proof -
  have "(- 2 :: int) = - 1 \<or> (- 2 :: int) = - 2" by simp
  from signal_exit_text [OF this] obtain lint where
    "fst (execute_python (env_exec (Completed [] [] (- 2)))
                (submission ''import os, signal; signal.signal(2, signal.SIG_DFL); os.kill(os.getpid(), 2)'')
                world0) =
     Response 200
       [(''output'', []),
        (''error'', ''Execution Error: Failed to run subprocess.''),
        (''lint_feedback'', lint)]"
    by auto
  then show ?thesis by (simp add: env_exec_fields)
qed

section \<open>Request checks\<close>

lemma not_json_rejected:
  "\<not> is_json req \<Longrightarrow>
   execute_python E req W = (Response 400 [(''error'', ''Request must be JSON'')], W)"
  by (simp add: execute_python_def)

lemma missing_code_rejected:
  "is_json req \<Longrightarrow> get_json req = Inr (JObj d) \<Longrightarrow> map_of d ''code'' = None \<Longrightarrow>
   execute_python E req W =
     (Response 400
        [(''error'', ''Missing '' @ [CHR 0x27] @ ''code'' @ [CHR 0x27] @ '' field in JSON payload'')],
      W)"
  by (simp add: execute_python_def dict_get_def)

text \<open>
  Claim C8 at a failing input. A request with a JSON content type whose body is
  the JSON array \<open>[]\<close> has no \<open>code\<close> key. The handler does not answer 400 with
  \<open>Missing 'code' field in JSON payload\<close>: \<open>data.get('code')\<close> raises
  \<open>AttributeError\<close> on a list, outside the \<open>try\<close>, and the exception leaves the
  handler. Nothing is run and no file is created.
\<close>

theorem non_object_body_raises:
  "execute_python E (json_request (JArr [])) W =
     (Propagated ([CHR 0x27] @ ''list'' @ [CHR 0x27] @ '' object has no attribute ''
                  @ [CHR 0x27] @ ''get'' @ [CHR 0x27]), W)"
  by (simp add: execute_python_def json_request_def)

section \<open>The lint pass\<close>

lemma flake8_section_kept:
  "err \<noteq> [] \<Longrightarrow>
   sublist ''--- Flake8 Error ---'' (x @ strip ([nl] @ ''--- Flake8 Error ---'' @ [nl] @ err))"
proof -
  have "sublist ''--- Flake8 Error ---'' ([nl] @ ''--- Flake8 Error ---'' @ ([nl] @ err))"
    by (rule sublist_appendI)
  then have "sublist ''--- Flake8 Error ---'' (strip ([nl] @ ''--- Flake8 Error ---'' @ [nl] @ err))"
    by (rule strip_keeps_infix [rotated 3]) (simp_all add: isspace_def)
  then obtain ps ss where "strip ([nl] @ ''--- Flake8 Error ---'' @ [nl] @ err)
      = ps @ ''--- Flake8 Error ---'' @ ss"
    unfolding sublist_def by blast
  then have "x @ strip ([nl] @ ''--- Flake8 Error ---'' @ [nl] @ err)
      = (x @ ps) @ ''--- Flake8 Error ---'' @ ss"
    by simp
  then show ?thesis unfolding sublist_def by blast
qed

lemma lint_phase_completed:
  assumes "subprocess_run E [''flake8'', p] None (files W) = (Completed out err rc, fs)"
  shows "lint_feedback (fst (lint_phase E p (L, W)))
          = (if out = [] then lint_feedback L else format_lint out)
            @ (if err = [] then [] else strip ([nl] @ ''--- Flake8 Error ---'' @ [nl] @ err))"
  using assms
  by (simp add: lint_phase_def run_subprocess_def Let_def merge_lint_def truthy_def)

lemma cleanup_calls: "calls (cleanup E L W) = calls W"
  by (simp add: cleanup_def split: option.splits)

lemma handler_calls:
  assumes "is_json req" and "get_json req = Inr (JObj d)" and "dict_get d ''code'' = JStr src"
    and "mktemp E = Inr stem" and "write_fault E = None"
  shows "calls (snd (execute_python E req W))
       = calls W @ [([''python'', stem @ ''.py''], Some 5), ([''flake8'', stem @ ''.py''], None)]"
proof -
  have ex: "execute_python E req W = process_submission E (JStr src) W"
    using assms(1,2,3) execute_python_reaches [of req d E W] by simp
  have w: "write_code E (JStr src) = None"
    using assms(5) by (simp add: write_code_def)
  show ?thesis
    unfolding ex
    by (simp add: process_submission_def Let_def cleanup_calls try_body_runs [OF assms(4) w]
        lint_phase_fields exec_phase_fields EXECUTION_TIMEOUT_def)
qed

text \<open>
  What the lint pass does. The linter is started with no timeout (\<open>None\<close>), as
  the second and last child of a request whose file was written. Its return code
  is not read: whatever it is, a non-empty stdout is formatted into
  \<open>lint_feedback\<close>. A non-empty stderr is appended to \<open>lint_feedback\<close> as the
  trimmed text \<open>"\n--- Flake8 Error ---\n{stderr}"\<close>, so the feedback then
  contains the heading \<open>--- Flake8 Error ---\<close>. The lint pass leaves \<open>error\<close>
  and \<open>output\<close> as they were.
\<close>

lemma lint_pass:
  "calls (snd (lint_phase E p (L, W))) = calls W @ [([''flake8'', p], None)]
   \<and> error (fst (lint_phase E p (L, W))) = error L
   \<and> output_text (fst (lint_phase E p (L, W))) = output_text L
   \<and> (\<forall>out err rc fs.
         subprocess_run E [''flake8'', p] None (files W) = (Completed out err rc, fs) \<longrightarrow>
           lint_feedback (fst (lint_phase E p (L, W)))
             = (if out = [] then lint_feedback L else format_lint out)
               @ (if err = [] then [] else strip ([nl] @ ''--- Flake8 Error ---'' @ [nl] @ err))
         \<and> (err \<noteq> [] \<longrightarrow>
               sublist ''--- Flake8 Error ---'' (lint_feedback (fst (lint_phase E p (L, W))))))
   \<and> (\<forall>req d src stem W0.
         is_json req \<and> get_json req = Inr (JObj d) \<and> dict_get d ''code'' = JStr src
         \<and> mktemp E = Inr stem \<and> write_fault E = None \<longrightarrow>
           calls (snd (execute_python E req W0))
             = calls W0 @ [([''python'', stem @ ''.py''], Some 5),
                           ([''flake8'', stem @ ''.py''], None)])"
proof (intro conjI allI impI)
  show "calls (snd (lint_phase E p (L, W))) = calls W @ [([''flake8'', p], None)]"
    by (simp add: lint_phase_fields)
  show "error (fst (lint_phase E p (L, W))) = error L"
    by (simp add: lint_phase_fields)
  show "output_text (fst (lint_phase E p (L, W))) = output_text L"
    by (simp add: lint_phase_fields)
next
  fix out err rc fs
  assume "subprocess_run E [''flake8'', p] None (files W) = (Completed out err rc, fs)"
  then show "lint_feedback (fst (lint_phase E p (L, W)))
             = (if out = [] then lint_feedback L else format_lint out)
               @ (if err = [] then [] else strip ([nl] @ ''--- Flake8 Error ---'' @ [nl] @ err))"
    by (rule lint_phase_completed)
next
  fix out err rc fs
  assume r: "subprocess_run E [''flake8'', p] None (files W) = (Completed out err rc, fs)"
    and e: "err \<noteq> []"
  have "lint_feedback (fst (lint_phase E p (L, W)))
             = (if out = [] then lint_feedback L else format_lint out)
               @ strip ([nl] @ ''--- Flake8 Error ---'' @ [nl] @ err)"
    using lint_phase_completed [OF r, of L] e by simp
  then show "sublist ''--- Flake8 Error ---'' (lint_feedback (fst (lint_phase E p (L, W))))"
    using flake8_section_kept [OF e] by simp
next
  fix req :: request and d src stem W0
  assume "is_json req \<and> get_json req = Inr (JObj d) \<and> dict_get d ''code'' = JStr src
         \<and> mktemp E = Inr stem \<and> write_fault E = None"
  then show "calls (snd (execute_python E req W0))
             = calls W0 @ [([''python'', stem @ ''.py''], Some 5),
                           ([''flake8'', stem @ ''.py''], None)]"
    using handler_calls by blast
qed

lemma lint_pass_example:
  "subprocess_run (env_lint (Completed ''/tmp/tmpq1.py:1:2: E225 x'' ''boom'' 1))
       [''flake8'', ''/tmp/tmpq1.py''] None (files world0)
     = (Completed ''/tmp/tmpq1.py:1:2: E225 x'' ''boom'' 1, files world0)
   \<and> ''boom'' \<noteq> []
   \<and> calls (snd (lint_phase (env_lint (Completed ''/tmp/tmpq1.py:1:2: E225 x'' ''boom'' 1))
                     ''/tmp/tmpq1.py'' (initial_locals, world0)))
       = [([''flake8'', ''/tmp/tmpq1.py''], None)]
   \<and> lint_feedback (fst (lint_phase (env_lint (Completed ''/tmp/tmpq1.py:1:2: E225 x'' ''boom'' 1))
                     ''/tmp/tmpq1.py'' (initial_locals, world0)))
       = ''L1:2: E225 x--- Flake8 Error ---'' @ [nl] @ ''boom''
   \<and> sublist ''--- Flake8 Error ---''
        (lint_feedback (fst (lint_phase (env_lint (Completed ''/tmp/tmpq1.py:1:2: E225 x'' ''boom'' 1))
                     ''/tmp/tmpq1.py'' (initial_locals, world0))))
   \<and> is_json (submission ''x=1'')
   \<and> calls (snd (execute_python (env_lint (Completed ''/tmp/tmpq1.py:1:2: E225 x'' ''boom'' 1))
                     (submission ''x=1'') world0))
       = [([''python'', ''/tmp/tmpq1.py''], Some 5), ([''flake8'', ''/tmp/tmpq1.py''], None)]"
proof -
  define E where "E = env_lint (Completed ''/tmp/tmpq1.py:1:2: E225 x'' ''boom'' 1)"
  note T = lint_pass [of E "''/tmp/tmpq1.py''" initial_locals world0]
  have run: "subprocess_run E [''flake8'', ''/tmp/tmpq1.py''] None (files world0)
     = (Completed ''/tmp/tmpq1.py:1:2: E225 x'' ''boom'' 1, files world0)"
    by (simp add: E_def env_lint_def)
  have ne: "''boom'' \<noteq> []" by simp
  have c: "calls (snd (lint_phase E ''/tmp/tmpq1.py'' (initial_locals, world0)))
       = [([''flake8'', ''/tmp/tmpq1.py''], None)]"
    using T by (simp add: world0_def)
  have fmt: "format_lint ''/tmp/tmpq1.py:1:2: E225 x'' = ''L1:2: E225 x''"
    by (simp add: format_lint_def lint_lines_def format_line_def numeral_3_eq_3
        strip_def lstrip_def rstrip_def isspace_def)
  have sec: "strip ([nl] @ ''--- Flake8 Error ---'' @ [nl] @ ''boom'')
           = ''--- Flake8 Error ---'' @ [nl] @ ''boom''"
    by (simp add: strip_def lstrip_def rstrip_def isspace_def)
  from T run ne have
    f: "lint_feedback (fst (lint_phase E ''/tmp/tmpq1.py'' (initial_locals, world0)))
        = format_lint ''/tmp/tmpq1.py:1:2: E225 x''
          @ strip ([nl] @ ''--- Flake8 Error ---'' @ [nl] @ ''boom'')"
    and s: "sublist ''--- Flake8 Error ---''
        (lint_feedback (fst (lint_phase E ''/tmp/tmpq1.py'' (initial_locals, world0))))"
    by auto
  have f': "lint_feedback (fst (lint_phase E ''/tmp/tmpq1.py'' (initial_locals, world0)))
        = ''L1:2: E225 x--- Flake8 Error ---'' @ [nl] @ ''boom''"
    unfolding f fmt sec by simp
  have env: "mktemp E = Inr ''/tmp/tmpq1''" "write_fault E = None"
    by (simp_all add: E_def env_lint_def)
  from T submission_reaches [of "''x=1''"] env have
    "calls (snd (execute_python E (submission ''x=1'') world0))
       = calls world0 @ [([''python'', ''/tmp/tmpq1'' @ ''.py''], Some 5),
                         ([''flake8'', ''/tmp/tmpq1'' @ ''.py''], None)]"
    by blast
  then have h: "calls (snd (execute_python E (submission ''x=1'') world0))
       = [([''python'', ''/tmp/tmpq1.py''], Some 5), ([''flake8'', ''/tmp/tmpq1.py''], None)]"
    by (simp add: world0_def)
  from run ne c f' s h submission_reaches(1) [of "''x=1''"] show ?thesis
    unfolding E_def by blast
qed

text \<open>
  Claim C9 at a failing input. The linter reports one diagnostic on stdout,
  writes \<open>boom\<close> to stderr and exits with code 1. Line 118 appends
  \<open>f"\n--- Flake8 Error ---\n{lint_stderr}".strip()\<close>: the \<open>strip\<close> applies to the
  appended text and removes the line break written in front of the heading. The
  \<open>lint_feedback\<close> the client receives has the heading on the line of the last
  diagnostic, not as a section of its own.
\<close>

theorem flake8_heading_glued:
  "subprocess_run (env_lint (Completed ''/tmp/tmpq1.py:1:2: E225 x'' ''boom'' 1))
       [''flake8'', ''/tmp/tmpq1.py''] None {''/tmp/tmpq1.py''}
     = (Completed ''/tmp/tmpq1.py:1:2: E225 x'' ''boom'' 1, {''/tmp/tmpq1.py''})
   \<and> response_status
        (fst (execute_python (env_lint (Completed ''/tmp/tmpq1.py:1:2: E225 x'' ''boom'' 1))
                (submission ''x=1'') world0)) = Some 200
   \<and> response_field
        (fst (execute_python (env_lint (Completed ''/tmp/tmpq1.py:1:2: E225 x'' ''boom'' 1))
                (submission ''x=1'') world0)) ''lint_feedback''
       = Some (''L1:2: E225 x--- Flake8 Error ---'' @ [nl] @ ''boom'')
   \<and> split_on nl (''L1:2: E225 x--- Flake8 Error ---'' @ [nl] @ ''boom'')
       = [''L1:2: E225 x--- Flake8 Error ---'', ''boom'']"
proof -
  define E where "E = env_lint (Completed ''/tmp/tmpq1.py:1:2: E225 x'' ''boom'' 1)"
  define X where "X = exec_phase E (''/tmp/tmpq1'' @ ''.py'')
       (initial_locals\<lparr>temp_file_path := Some (''/tmp/tmpq1'' @ ''.py'')\<rparr>,
        world0\<lparr>files := insert (''/tmp/tmpq1'' @ ''.py'') (files world0),
          created := created world0 @ [''/tmp/tmpq1'' @ ''.py'']\<rparr>)"
  have run: "subprocess_run E [''flake8'', ''/tmp/tmpq1.py''] None fs
     = (Completed ''/tmp/tmpq1.py:1:2: E225 x'' ''boom'' 1, fs)" for fs
    by (simp add: E_def env_lint_def)
  have env: "mktemp E = Inr ''/tmp/tmpq1''" "write_code E (JStr ''x=1'') = None"
    by (simp_all add: E_def env_lint_def write_code_def)
  have ex: "execute_python E (submission ''x=1'') world0 = process_submission E (JStr ''x=1'') world0"
    using execute_python_reaches [OF submission_reaches(1,2), of "''x=1''" E world0]
    by (simp add: submission_reaches(3))
  have t: "try_body E (JStr ''x=1'') initial_locals world0
      = (None, lint_phase E (''/tmp/tmpq1'' @ ''.py'') X)"
    unfolding X_def by (rule try_body_runs [OF env])
  have x: "lint_feedback (fst X) = []"
    by (simp add: X_def exec_phase_fields initial_locals_def)
  have "lint_feedback (fst (lint_phase E ''/tmp/tmpq1.py'' (fst X, snd X)))
      = (if ''/tmp/tmpq1.py:1:2: E225 x'' = [] then lint_feedback (fst X)
         else format_lint ''/tmp/tmpq1.py:1:2: E225 x'')
        @ (if ''boom'' = [] then []
           else strip ([nl] @ ''--- Flake8 Error ---'' @ [nl] @ ''boom''))"
    by (rule lint_phase_completed [OF run])
  moreover have "format_lint ''/tmp/tmpq1.py:1:2: E225 x'' = ''L1:2: E225 x''"
    by (simp add: format_lint_def lint_lines_def format_line_def numeral_3_eq_3
        strip_def lstrip_def rstrip_def isspace_def)
  moreover have "strip ([nl] @ ''--- Flake8 Error ---'' @ [nl] @ ''boom'')
           = ''--- Flake8 Error ---'' @ [nl] @ ''boom''"
    by (simp add: strip_def lstrip_def rstrip_def isspace_def)
  ultimately have f: "lint_feedback (fst (lint_phase E ''/tmp/tmpq1.py'' X))
      = ''L1:2: E225 x--- Flake8 Error ---'' @ [nl] @ ''boom''"
    by simp
  have s: "strip (''L1:2: E225 x--- Flake8 Error ---'' @ [nl] @ ''boom'')
      = ''L1:2: E225 x--- Flake8 Error ---'' @ [nl] @ ''boom''"
    by (simp add: strip_def lstrip_def rstrip_def isspace_def)
  have fs: "strip (lint_feedback (fst (lint_phase E ''/tmp/tmpq1.py'' X)))
      = ''L1:2: E225 x--- Flake8 Error ---'' @ [nl] @ ''boom''"
    unfolding f by (rule s)
  have r: "response_field (fst (execute_python E (submission ''x=1'') world0)) ''lint_feedback''
      = Some (''L1:2: E225 x--- Flake8 Error ---'' @ [nl] @ ''boom'')"
    unfolding ex process_submission_response t by (simp add: fs)
  have st: "response_status (fst (execute_python E (submission ''x=1'') world0)) = Some 200"
    unfolding ex process_submission_response by simp
  have sp: "split_on nl (''L1:2: E225 x--- Flake8 Error ---'' @ [nl] @ ''boom'')
       = [''L1:2: E225 x--- Flake8 Error ---'', ''boom'']"
    by simp
  from run [of "{''/tmp/tmpq1.py''}"] st r sp show ?thesis
    unfolding E_def by blast
qed

section \<open>The temporary file\<close>

lemma run_subprocess_remove_irrelevant:
  "run_subprocess (E\<lparr>remove_fault := r\<rparr>) c t W = run_subprocess E c t W"
  by (simp add: run_subprocess_def)

lemma phases_remove_irrelevant:
  "exec_phase (E\<lparr>remove_fault := r\<rparr>) p LW = exec_phase E p LW"
  "lint_phase (E\<lparr>remove_fault := r\<rparr>) p LW = lint_phase E p LW"
  "write_code (E\<lparr>remove_fault := r\<rparr>) code = write_code E code"
  by (simp_all add: exec_phase_def lint_phase_def write_code_def run_subprocess_remove_irrelevant
      split: json.splits)

lemma try_body_remove_irrelevant:
  "try_body (E\<lparr>remove_fault := r\<rparr>) code L W = try_body E code L W"
  by (simp add: try_body_def Let_def phases_remove_irrelevant split: sum.splits option.splits)

lemma try_body_file:
  assumes "mktemp E = Inr stem"
  shows "temp_file_path (fst (snd (try_body E code L W))) = Some (stem @ ''.py'')"
    and "created (snd (snd (try_body E code L W))) = created W @ [stem @ ''.py'']"
    and "printed (snd (snd (try_body E code L W))) = printed W"
proof -
  have "temp_file_path (fst (snd (try_body E code L W))) = Some (stem @ ''.py'')
      \<and> created (snd (snd (try_body E code L W))) = created W @ [stem @ ''.py'']
      \<and> printed (snd (snd (try_body E code L W))) = printed W"
  proof (cases "write_code E code")
    case None
    show ?thesis
      unfolding try_body_runs [OF assms None]
      by (simp add: lint_phase_fields exec_phase_fields)
  next
    case (Some e)
    show ?thesis
      unfolding try_body_write_raises [OF assms Some] by simp
  qed
  then show "temp_file_path (fst (snd (try_body E code L W))) = Some (stem @ ''.py'')"
    and "created (snd (snd (try_body E code L W))) = created W @ [stem @ ''.py'']"
    and "printed (snd (snd (try_body E code L W))) = printed W"
    by simp_all
qed

lemma handle_exception_path:
  "temp_file_path (handle_exception raised L) = temp_file_path L"
  by (simp add: handle_exception_def split: option.splits)

lemma cleanup_none: "temp_file_path L = None \<Longrightarrow> cleanup E L W = W"
  by (simp add: cleanup_def)

lemma cleanup_created: "created (cleanup E L W) = created W"
  by (simp add: cleanup_def split: option.splits)

lemma cleanup_removed:
  "temp_file_path L = Some p \<Longrightarrow> p \<noteq> [] \<Longrightarrow> remove_fault E = None \<Longrightarrow>
   p \<notin> files (cleanup E L W) \<and> printed (cleanup E L W) = printed W"
  by (simp add: cleanup_def)

lemma cleanup_remove_fails:
  "temp_file_path L = Some p \<Longrightarrow> p \<noteq> [] \<Longrightarrow> remove_fault E = Some e \<Longrightarrow> p \<in> files W \<Longrightarrow>
   files (cleanup E L W) = files W
   \<and> printed (cleanup E L W)
       = printed W @ [''Warning: Failed to delete temporary file '' @ p @ '': '' @ e]"
  by (simp add: cleanup_def)

lemma cleanup_absent:
  "temp_file_path L = Some p \<Longrightarrow> p \<notin> files W \<Longrightarrow> cleanup E L W = W"
  by (simp add: cleanup_def)

lemma phase_files:
  "files (snd (exec_phase E p LW))
     = snd (subprocess_run E [''python'', p] (Some EXECUTION_TIMEOUT) (files (snd LW)))"
  "files (snd (lint_phase E p LW)) = snd (subprocess_run E [''flake8'', p] None (files (snd LW)))"
  by (simp_all add: exec_phase_def lint_phase_def Let_def run_subprocess_world)

lemma try_body_files_untouched:
  assumes "mktemp E = Inr stem" and "write_code E code = None"
    and "\<And>c t fs. snd (subprocess_run E c t fs) = fs"
  shows "files (snd (snd (try_body E code L W))) = insert (stem @ ''.py'') (files W)"
  unfolding try_body_runs [OF assms(1,2)] by (simp add: phase_files assms(3))

lemma process_submission_world:
  "snd (process_submission E code W) =
     cleanup E (handle_exception (fst (try_body E code initial_locals W))
                  (fst (snd (try_body E code initial_locals W))))
       (snd (snd (try_body E code initial_locals W)))"
  by (simp add: process_submission_def Let_def)

lemma response_remove_irrelevant:
  "fst (execute_python (E\<lparr>remove_fault := r\<rparr>) req W) = fst (execute_python E req W)"
proof -
  have "fst (process_submission (E\<lparr>remove_fault := r\<rparr>) code W) = fst (process_submission E code W)"
    for code
    by (simp add: process_submission_response try_body_remove_irrelevant)
  then show ?thesis
    by (simp add: execute_python_def split: sum.splits)
qed

text \<open>
  Claim C6, as the code has it. A request that reaches the coordinator is always
  answered with status 200 and creates at most one temporary file: none when
  \<open>NamedTemporaryFile\<close> itself raises (then the files and the server log are
  untouched), exactly one otherwise. A file that was created does not exist any
  more when the handler returns, on every path (success, timeout, non-zero exit,
  linter failure, an exception in the write), unless \<open>os.remove\<close> fails. When
  the file is still there at the \<open>finally\<close> and \<open>os.remove\<close> fails with text
  \<open>e\<close>, the file stays and exactly the line
  \<open>Warning: Failed to delete temporary file {path}: {e}\<close> is added to the server
  log; in every other case nothing is logged. The response is the same whatever
  the removal does.
\<close>

theorem workspace_lifecycle:
  assumes "is_json req" and "get_json req = Inr (JObj d)"
    and "dict_get d ''code'' = code" and "code \<noteq> JNull"
  shows "response_status (fst (execute_python E req W)) = Some 200
       \<and> (\<forall>e. mktemp E = Inl e \<longrightarrow>
            created (snd (execute_python E req W)) = created W
          \<and> files (snd (execute_python E req W)) = files W
          \<and> printed (snd (execute_python E req W)) = printed W)
       \<and> (\<forall>stem. mktemp E = Inr stem \<longrightarrow>
            created (snd (execute_python E req W)) = created W @ [stem @ ''.py'']
          \<and> (remove_fault E = None \<longrightarrow>
                stem @ ''.py'' \<notin> files (snd (execute_python E req W))
              \<and> printed (snd (execute_python E req W)) = printed W)
          \<and> (\<forall>e. remove_fault E = Some e \<longrightarrow>
                (stem @ ''.py'' \<in> files (snd (snd (try_body E code initial_locals W))) \<longrightarrow>
                   stem @ ''.py'' \<in> files (snd (execute_python E req W))
                 \<and> printed (snd (execute_python E req W))
                     = printed W @ [''Warning: Failed to delete temporary file ''
                                    @ (stem @ ''.py'') @ '': '' @ e])
              \<and> (stem @ ''.py'' \<notin> files (snd (snd (try_body E code initial_locals W))) \<longrightarrow>
                   stem @ ''.py'' \<notin> files (snd (execute_python E req W))
                 \<and> printed (snd (execute_python E req W)) = printed W)))
       \<and> (\<forall>r. fst (execute_python (E\<lparr>remove_fault := r\<rparr>) req W) = fst (execute_python E req W))"
proof -
  let ?t = "try_body E code initial_locals W"
  let ?L = "handle_exception (fst ?t) (fst (snd ?t))"
  have ep: "execute_python E req W = process_submission E code W"
    using assms execute_python_reaches [of req d E W] by simp
  have ex: "snd (execute_python E req W) = cleanup E ?L (snd (snd ?t))"
    by (simp add: ep process_submission_world)
  have st: "response_status (fst (execute_python E req W)) = Some 200"
    unfolding ep process_submission_response by simp
  have none: "created (snd (execute_python E req W)) = created W
          \<and> files (snd (execute_python E req W)) = files W
          \<and> printed (snd (execute_python E req W)) = printed W"
    if "mktemp E = Inl e" for e
  proof -
    have t: "?t = (Some e, initial_locals, W)" using that by (rule try_body_no_file)
    have "temp_file_path ?L = None"
      unfolding t by (simp add: handle_exception_path initial_locals_def)
    then have "cleanup E ?L (snd (snd ?t)) = W"
      using cleanup_none [of ?L E "snd (snd ?t)"] by (simp add: t)
    then show ?thesis by (simp add: ex)
  qed
  have one: "created (snd (execute_python E req W)) = created W @ [stem @ ''.py'']
          \<and> (remove_fault E = None \<longrightarrow>
                stem @ ''.py'' \<notin> files (snd (execute_python E req W))
              \<and> printed (snd (execute_python E req W)) = printed W)
          \<and> (\<forall>e. remove_fault E = Some e \<longrightarrow>
                (stem @ ''.py'' \<in> files (snd (snd ?t)) \<longrightarrow>
                   stem @ ''.py'' \<in> files (snd (execute_python E req W))
                 \<and> printed (snd (execute_python E req W))
                     = printed W @ [''Warning: Failed to delete temporary file ''
                                    @ (stem @ ''.py'') @ '': '' @ e])
              \<and> (stem @ ''.py'' \<notin> files (snd (snd ?t)) \<longrightarrow>
                   stem @ ''.py'' \<notin> files (snd (execute_python E req W))
                 \<and> printed (snd (execute_python E req W)) = printed W))"
    if m: "mktemp E = Inr stem" for stem
  proof -
    have p: "temp_file_path ?L = Some (stem @ ''.py'')"
      by (simp add: handle_exception_path try_body_file(1) [OF m])
    have ne: "stem @ ''.py'' \<noteq> []" by simp
    have c: "created (snd (execute_python E req W)) = created W @ [stem @ ''.py'']"
      by (simp add: ex cleanup_created try_body_file(2) [OF m])
    have r: "stem @ ''.py'' \<notin> files (snd (execute_python E req W))
              \<and> printed (snd (execute_python E req W)) = printed W"
      if "remove_fault E = None"
      using cleanup_removed [OF p ne that, of "snd (snd ?t)"]
      by (simp add: ex try_body_file(3) [OF m])
    have w: "stem @ ''.py'' \<in> files (snd (execute_python E req W))
                 \<and> printed (snd (execute_python E req W))
                     = printed W @ [''Warning: Failed to delete temporary file ''
                                    @ (stem @ ''.py'') @ '': '' @ e]"
      if "remove_fault E = Some e" and "stem @ ''.py'' \<in> files (snd (snd ?t))" for e
      using cleanup_remove_fails [OF p ne that] that(2)
      by (simp add: ex try_body_file(3) [OF m])
    have a: "stem @ ''.py'' \<notin> files (snd (execute_python E req W))
                 \<and> printed (snd (execute_python E req W)) = printed W"
      if "stem @ ''.py'' \<notin> files (snd (snd ?t))"
      using cleanup_absent [OF p that, of E] that
      by (simp add: ex try_body_file(3) [OF m])
    from c r w a show ?thesis by blast
  qed
  from st none one response_remove_irrelevant show ?thesis by blast
qed

theorem workspace_lifecycle_witness:
  "is_json (submission ''print(1)'')
   \<and> mktemp (env_exec (Completed ''1'' [] 0)) = Inr ''/tmp/tmpq1''
   \<and> remove_fault (env_exec (Completed ''1'' [] 0)) = None
   \<and> response_status
        (fst (execute_python (env_exec (Completed ''1'' [] 0)) (submission ''print(1)'') world0))
       = Some 200
   \<and> created (snd (execute_python (env_exec (Completed ''1'' [] 0)) (submission ''print(1)'') world0))
       = [''/tmp/tmpq1.py'']
   \<and> ''/tmp/tmpq1.py''
       \<notin> files (snd (execute_python (env_exec (Completed ''1'' [] 0)) (submission ''print(1)'') world0))
   \<and> printed (snd (execute_python (env_exec (Completed ''1'' [] 0)) (submission ''print(1)'') world0))
       = []
   \<and> remove_fault ((env_exec (Completed ''1'' [] 0))\<lparr>remove_fault := Some ''denied''\<rparr>)
       = Some ''denied''
   \<and> ''/tmp/tmpq1.py''
       \<in> files (snd (execute_python ((env_exec (Completed ''1'' [] 0))\<lparr>remove_fault := Some ''denied''\<rparr>)
                        (submission ''print(1)'') world0))
   \<and> printed (snd (execute_python ((env_exec (Completed ''1'' [] 0))\<lparr>remove_fault := Some ''denied''\<rparr>)
                        (submission ''print(1)'') world0))
       = [''Warning: Failed to delete temporary file /tmp/tmpq1.py: denied'']
   \<and> fst (execute_python ((env_exec (Completed ''1'' [] 0))\<lparr>remove_fault := Some ''denied''\<rparr>)
            (submission ''print(1)'') world0)
       = fst (execute_python (env_exec (Completed ''1'' [] 0)) (submission ''print(1)'') world0)"
proof -
  define E where "E = env_exec (Completed ''1'' [] 0)"
  define F where "F = E\<lparr>remove_fault := Some ''denied''\<rparr>"
  have m: "mktemp E = Inr ''/tmp/tmpq1''" and r: "remove_fault E = None"
    by (simp_all add: E_def env_exec_fields)
  have mF: "mktemp F = Inr ''/tmp/tmpq1''" and rF: "remove_fault F = Some ''denied''"
    by (simp_all add: F_def E_def env_exec_fields)
  have wF: "write_code F (JStr ''print(1)'') = None"
    by (simp add: F_def E_def write_code_def env_exec_fields)
  have kF: "snd (subprocess_run F c t fs) = fs" for c t fs
    by (simp add: F_def E_def env_exec_def)
  have present: "''/tmp/tmpq1'' @ ''.py''
      \<in> files (snd (snd (try_body F (JStr ''print(1)'') initial_locals world0)))"
    unfolding try_body_files_untouched [OF mF wF kF] by simp
  have j: "JStr ''print(1)'' \<noteq> JNull" by simp
  note T = workspace_lifecycle [OF submission_reaches j, of E world0]
  note U = workspace_lifecycle [OF submission_reaches j, of F world0]
  from T m r have
    "response_status (fst (execute_python E (submission ''print(1)'') world0)) = Some 200"
    and "created (snd (execute_python E (submission ''print(1)'') world0))
       = created world0 @ [''/tmp/tmpq1'' @ ''.py'']"
    and "''/tmp/tmpq1'' @ ''.py'' \<notin> files (snd (execute_python E (submission ''print(1)'') world0))"
    and "printed (snd (execute_python E (submission ''print(1)'') world0)) = printed world0"
    by blast+
  moreover from T have
    "fst (execute_python (E\<lparr>remove_fault := Some ''denied''\<rparr>) (submission ''print(1)'') world0)
       = fst (execute_python E (submission ''print(1)'') world0)"
    by blast
  moreover from U mF rF present have
    "''/tmp/tmpq1'' @ ''.py'' \<in> files (snd (execute_python F (submission ''print(1)'') world0))"
    and "printed (snd (execute_python F (submission ''print(1)'') world0))
       = printed world0 @ [''Warning: Failed to delete temporary file ''
                           @ (''/tmp/tmpq1'' @ ''.py'') @ '': '' @ ''denied'']"
    by blast+
  ultimately show ?thesis
    using m r rF submission_reaches(1) [of "''print(1)''"]
    unfolding F_def E_def by (simp add: world0_def)
qed

text \<open>
  The claim as it was stated fails: when \<open>NamedTemporaryFile\<close> raises, the
  request is still answered with a report (status 200) and no temporary file
  has been created.
\<close>

theorem workspace_lifecycle_counterexample:
  "response_status (fst (execute_python env_disk_full (submission ''print(1)'') world0)) = Some 200
   \<and> created (snd (execute_python env_disk_full (submission ''print(1)'') world0)) = []"
proof -
  have ex: "execute_python env_disk_full (submission ''print(1)'') world0
      = process_submission env_disk_full (JStr ''print(1)'') world0"
    using execute_python_reaches [OF submission_reaches(1,2), of "''print(1)''" env_disk_full world0]
    by (simp add: submission_reaches(3))
  have t: "try_body env_disk_full (JStr ''print(1)'') initial_locals world0
           = (Some ''[Errno 28] No space left on device'', initial_locals, world0)"
    by (rule try_body_no_file) (simp add: env_disk_full_def)
  have "created (snd (process_submission env_disk_full (JStr ''print(1)'') world0)) = []"
    unfolding process_submission_world t by (simp add: cleanup_created world0_def)
  moreover have "response_status (fst (process_submission env_disk_full (JStr ''print(1)'') world0))
      = Some 200"
    by (simp add: process_submission_response)
  ultimately show ?thesis by (simp add: ex)
qed

end
